theory Spec2Isabelle
  imports Main "HOL-Library.Word"
begin

section \<open>Values of the host language\<close>

text \<open>
  A Python \<open>str\<close> is a sequence of Unicode code points, a \<open>bytes\<close> object a sequence
  of octets. String literals of the source are ASCII literals, turned into code points
  by \<open>lit\<close>.
\<close>

type_synonym pystr = "nat list"
type_synonym byte = "8 word"

definition lit :: "string \<Rightarrow> pystr" where
  "lit s = map of_char s"

definition nl :: pystr where
  "nl = [10]"

text \<open>\<open>sep.join(xs)\<close>.\<close>

fun join :: "pystr \<Rightarrow> pystr list \<Rightarrow> pystr" where
  "join sep [] = []"
| "join sep [x] = x"
| "join sep (x # y # ys) = x @ sep @ join sep (y # ys)"

text \<open>
  Values that arrive in an argument mapping (\<open>dict[str, Any]\<close>, decoded from JSON;
  numbers are integers here).
\<close>

datatype pyval =
    VNone
  | VBool bool
  | VInt int
  | VStr pystr
  | VList "pyval list"
  | VDict "(pystr \<times> pyval) list"

type_synonym arguments = "pystr \<rightharpoonup> pyval"

text \<open>
  Exceptions are values. \<open>FileNotFoundError\<close> is the configuration error of the
  specification, \<open>ValueError\<close> its unknown-tool error and \<open>KeyError\<close> its
  missing-argument error; \<open>BinasciiError\<close> is \<open>binascii.Error\<close>;
  \<open>ExternalError\<close> stands for whatever else a collaborator (authorisation library,
  HTTP client, MIME library) raises.
\<close>

datatype error =
    FileNotFoundError pystr
  | ValueError pystr
  | KeyError pystr
  | UnicodeEncodeError
  | UnicodeDecodeError
  | BinasciiError
  | ExternalError pystr

text \<open>Sequencing of fallible computations: the first exception wins.\<close>

definition bind_err :: "error + 'a \<Rightarrow> ('a \<Rightarrow> error + 'b) \<Rightarrow> error + 'b" where
  "bind_err r f = (case r of Inl e \<Rightarrow> Inl e | Inr x \<Rightarrow> f x)"

text \<open>\<open>d[k]\<close> on the argument mapping, and \<open>d.get(k, default)\<close>.\<close>

definition getitem :: "arguments \<Rightarrow> pystr \<Rightarrow> error + pyval" where
  "getitem d k = (case d k of None \<Rightarrow> Inl (KeyError k) | Some v \<Rightarrow> Inr v)"

definition dict_get :: "('k \<rightharpoonup> 'v) \<Rightarrow> 'k \<Rightarrow> 'v \<Rightarrow> 'v" where
  "dict_get d k dflt = (case d k of None \<Rightarrow> dflt | Some v \<Rightarrow> v)"

text \<open>
  \<open>r[k]\<close> on a resource returned by the remote service: a field that the response
  leaves out raises \<open>KeyError\<close>.
\<close>

definition field :: "pystr \<Rightarrow> 'a option \<Rightarrow> error + 'a" where
  "field k x = (case x of None \<Rightarrow> Inl (KeyError k) | Some v \<Rightarrow> Inr v)"

section \<open>Library codecs\<close>

text \<open>
  \<open>base64.urlsafe_b64encode\<close>, \<open>base64.urlsafe_b64decode\<close> and the UTF-8 codec of
  \<open>str.encode\<close> and \<open>bytes.decode\<close>, after CPython (3.11 to 3.13). The decoder \<open>a2b_base64\<close> is
  the non-strict \<open>binascii.a2b_base64\<close>: a state machine over the input with the
  position in the current quad \<open>q\<close>, the bits left over \<open>l\<close> and the number of
  padding characters seen since the last data character \<open>p\<close>; characters outside the
  alphabet are skipped, a complete padding ends the input, and an incomplete quad at
  the end of the input is an error.
\<close>

text \<open>One more element in front of a result, unless decoding the rest failed.\<close>

definition emit :: "'a \<Rightarrow> error + 'a list \<Rightarrow> error + 'a list" where
  "emit x r = (case r of Inl e \<Rightarrow> Inl e | Inr xs \<Rightarrow> Inr (x # xs))"

text \<open>
  The alphabet \<open>A-Z a-z 0-9 + /\<close>: the character of a sextet, and the sextet of a
  character (\<open>None\<close> outside the alphabet).
\<close>

definition b64code :: "nat \<Rightarrow> nat" where
  "b64code v =
     (if v < 26 then 65 + v
      else if v < 52 then 97 + (v - 26)
      else if v < 62 then 48 + (v - 52)
      else if v = 62 then 43 else 47)"

definition b64char :: "nat \<Rightarrow> byte" where
  "b64char v = of_nat (b64code v)"

definition b64val :: "byte \<Rightarrow> nat option" where
  "b64val c =
     (let n = unat c in
      if 65 \<le> n \<and> n \<le> 90 then Some (n - 65)
      else if 97 \<le> n \<and> n \<le> 122 then Some (n - 71)
      else if 48 \<le> n \<and> n \<le> 57 then Some (n + 4)
      else if n = 43 then Some 62
      else if n = 47 then Some 63
      else None)"

text \<open>
  \<open>binascii.b2a_base64(bs, newline=False)\<close>: three octets give four characters; one
  or two octets left over give two or three characters and the padding \<open>=\<close> (61).
\<close>

fun b2a_base64 :: "byte list \<Rightarrow> byte list" where
  "b2a_base64 (a # b # c # rest) =
     [b64char (unat a div 4),
      b64char ((unat a mod 4) * 16 + unat b div 16),
      b64char ((unat b mod 16) * 4 + unat c div 64),
      b64char (unat c mod 64)] @ b2a_base64 rest"
| "b2a_base64 [a, b] =
     [b64char (unat a div 4),
      b64char ((unat a mod 4) * 16 + unat b div 16),
      b64char ((unat b mod 16) * 4), 61]"
| "b2a_base64 [a] =
     [b64char (unat a div 4), b64char ((unat a mod 4) * 16), 61, 61]"
| "b2a_base64 [] = []"

text \<open>\<open>binascii.a2b_base64(cs)\<close> is \<open>a2b_base64 0 0 0 cs\<close>.\<close>

fun a2b_base64 :: "nat \<Rightarrow> nat \<Rightarrow> nat \<Rightarrow> byte list \<Rightarrow> error + byte list" where
  "a2b_base64 q l p [] = (if q = 0 then Inr [] else Inl BinasciiError)"
| "a2b_base64 q l p (c # cs) =
     (if c = 61 then
        (if 2 \<le> q \<and> 4 \<le> q + (p + 1) then Inr []
         else a2b_base64 q l (if 2 \<le> q then p + 1 else p) cs)
      else
        (case b64val c of
           None \<Rightarrow> a2b_base64 q l p cs
         | Some v \<Rightarrow>
             (if q = 0 then a2b_base64 1 v 0 cs
              else if q = 1 then emit (of_nat (l * 4 + v div 16)) (a2b_base64 2 (v mod 16) 0 cs)
              else if q = 2 then emit (of_nat (l * 16 + v div 4)) (a2b_base64 3 (v mod 4) 0 cs)
              else emit (of_nat (l * 64 + v)) (a2b_base64 0 0 0 cs))))"

text \<open>
  \<open>urlsafe_b64decode\<close> takes the \<open>str\<close> of the response: it must be ASCII
  (\<open>ValueError\<close> otherwise), \<open>-\<close> and \<open>_\<close> are translated to \<open>+\<close> and \<open>/\<close>, and the
  result is decoded. \<open>urlsafe_b64encode\<close> translates the other way after encoding.
\<close>

definition ascii_encode :: "pystr \<Rightarrow> error + byte list" where
  "ascii_encode s =
     (if list_all (\<lambda>c. c < 128) s then Inr (map of_nat s)
      else Inl (ValueError (lit ''string argument should contain only ASCII characters'')))"

definition to_urlsafe :: "byte \<Rightarrow> byte" where
  "to_urlsafe c = (if c = 43 then 45 else if c = 47 then 95 else c)"

definition from_urlsafe :: "byte \<Rightarrow> byte" where
  "from_urlsafe c = (if c = 45 then 43 else if c = 95 then 47 else c)"

definition urlsafe_b64encode :: "byte list \<Rightarrow> byte list" where
  "urlsafe_b64encode bs = map to_urlsafe (b2a_base64 bs)"

definition urlsafe_b64decode :: "pystr \<Rightarrow> error + byte list" where
  "urlsafe_b64decode s =
     bind_err (ascii_encode s) (\<lambda>bs. a2b_base64 0 0 0 (map from_urlsafe bs))"

text \<open>
  \<open>s.encode("utf-8")\<close>: one to four octets per code point; a surrogate code point
  cannot be encoded.
\<close>

definition utf8_encode_cp :: "nat \<Rightarrow> error + byte list" where
  "utf8_encode_cp c =
     (if c < 0x80 then Inr [of_nat c]
      else if c < 0x800 then Inr [of_nat (0xC0 + c div 64), of_nat (0x80 + c mod 64)]
      else if c < 0x10000 then
        (if 0xD800 \<le> c \<and> c \<le> 0xDFFF then Inl UnicodeEncodeError
         else Inr [of_nat (0xE0 + c div 4096), of_nat (0x80 + c div 64 mod 64),
                   of_nat (0x80 + c mod 64)])
      else if c < 0x110000 then
        Inr [of_nat (0xF0 + c div 262144), of_nat (0x80 + c div 4096 mod 64),
             of_nat (0x80 + c div 64 mod 64), of_nat (0x80 + c mod 64)]
      else Inl UnicodeEncodeError)"

fun utf8_encode :: "pystr \<Rightarrow> error + byte list" where
  "utf8_encode [] = Inr []"
| "utf8_encode (c # cs) =
     bind_err (utf8_encode_cp c) (\<lambda>bs.
     bind_err (utf8_encode cs) (\<lambda>rest. Inr (bs @ rest)))"

text \<open>
  \<open>bs.decode("utf-8")\<close>, strict: \<open>utf8_next b bs\<close> decodes the code point that starts
  with the octet \<open>b\<close> and continues in \<open>bs\<close>, and returns it with the number of
  continuation octets it took. Overlong forms, surrogates, values above \<open>0x10FFFF\<close>,
  stray continuation octets and truncated sequences are errors.
\<close>

definition cont :: "byte \<Rightarrow> bool" where
  "cont b = (0x80 \<le> unat b \<and> unat b < 0xC0)"

definition utf8_next :: "byte \<Rightarrow> byte list \<Rightarrow> error + nat \<times> nat" where
  "utf8_next b bs =
     (if unat b < 0x80 then Inr (unat b, 0)
      else if 0xC2 \<le> unat b \<and> unat b < 0xE0 then
        (case bs of
           b1 # rest \<Rightarrow>
             if cont b1
             then Inr ((unat b - 0xC0) * 64 + (unat b1 - 0x80), 1)
             else Inl UnicodeDecodeError
         | _ \<Rightarrow> Inl UnicodeDecodeError)
      else if 0xE0 \<le> unat b \<and> unat b < 0xF0 then
        (case bs of
           b1 # b2 # rest \<Rightarrow>
             (let c = (unat b - 0xE0) * 4096 + (unat b1 - 0x80) * 64 + (unat b2 - 0x80) in
              if cont b1 \<and> cont b2 \<and> 0x800 \<le> c \<and> \<not> (0xD800 \<le> c \<and> c \<le> 0xDFFF)
              then Inr (c, 2)
              else Inl UnicodeDecodeError)
         | _ \<Rightarrow> Inl UnicodeDecodeError)
      else if 0xF0 \<le> unat b \<and> unat b < 0xF5 then
        (case bs of
           b1 # b2 # b3 # rest \<Rightarrow>
             (let c = (unat b - 0xF0) * 262144 + (unat b1 - 0x80) * 4096
                      + (unat b2 - 0x80) * 64 + (unat b3 - 0x80) in
              if cont b1 \<and> cont b2 \<and> cont b3 \<and> 0x10000 \<le> c \<and> c < 0x110000
              then Inr (c, 3)
              else Inl UnicodeDecodeError)
         | _ \<Rightarrow> Inl UnicodeDecodeError)
      else Inl UnicodeDecodeError)"

function utf8_decode :: "byte list \<Rightarrow> error + pystr" where
  "utf8_decode [] = Inr []"
| "utf8_decode (b # bs) =
     (case utf8_next b bs of
        Inl e \<Rightarrow> Inl e
      | Inr (c, k) \<Rightarrow> emit c (utf8_decode (drop k bs)))"
  by pat_completeness auto
termination
  by (relation "measure length") auto

section \<open>Resources of the remote mail service\<close>

text \<open>
  The responses of the service follow the resource schema of its API: the type of each
  field is fixed, and a response may leave any field out. Only the fields that
  \<open>server.py\<close> reads are kept.
\<close>

datatype header = Header (hname: "pystr option") (hvalue: "pystr option")

datatype part_body = PartBody (body_data: "pystr option")

datatype part =
  Part (mimeType: "pystr option") (headers: "header list option")
       (body: "part_body option") (parts: "part list option")

datatype message = Message (msg_id: "pystr option") (payload: "part option")

datatype label = Label (label_id: "pystr option") (label_name: "pystr option")

text \<open>The one content block every tool returns: \<open>TextContent(type=..., text=...)\<close>.\<close>

datatype textcontent = TextContent pystr pystr

section \<open>Collaborators and the world\<close>

record credentials =
  valid :: bool
  expired :: bool
  refresh_token :: "pystr option"

datatype client_config = ClientConfig pystr

datatype service = Service credentials

text \<open>
  Every round-trip to the outside is recorded: the two of the credential store
  (\<open>creds.refresh\<close>, \<open>flow.run_local_server\<close>) and the four requests of the mail
  client.
\<close>

datatype event =
    Refresh credentials
  | RunLocalServer client_config
  | MessagesList pyval pyval
  | MessagesGet pyval pystr
  | MessagesSend pystr
  | LabelsList

fun is_mail_request :: "event \<Rightarrow> bool" where
  "is_mail_request (Refresh c) = False"
| "is_mail_request (RunLocalServer f) = False"
| "is_mail_request (MessagesList q n) = True"
| "is_mail_request (MessagesGet i f) = True"
| "is_mail_request (MessagesSend r) = True"
| "is_mail_request LabelsList = True"

text \<open>
  The world a call runs in: the files (path to content) and the round-trips made so
  far.
\<close>

record world =
  fs :: "pystr \<rightharpoonup> pystr"
  trace :: "event list"

text \<open>
  What the process is given: its environment variables, the authorisation library,
  the answers of the remote service to each request, and the MIME library
  (\<open>MIMEText(text)\<close>, \<open>message[name] = value\<close>, \<open>message.as_bytes()\<close>) over its own
  message type \<open>'m\<close>.
\<close>

record 'm env =
  environ :: "pystr \<rightharpoonup> pystr"
  from_authorized_user_file :: "pystr \<Rightarrow> pystr list \<Rightarrow> error + credentials"
  refresh :: "credentials \<Rightarrow> error + credentials"
  from_client_secrets_file :: "pystr \<Rightarrow> pystr list \<Rightarrow> error + client_config"
  run_local_server :: "client_config \<Rightarrow> error + credentials"
  to_json :: "credentials \<Rightarrow> pystr"
  messages_list :: "service \<Rightarrow> pyval \<Rightarrow> pyval \<Rightarrow> error + message list option"
  messages_get :: "service \<Rightarrow> pyval \<Rightarrow> pystr \<Rightarrow> error + message"
  messages_send :: "service \<Rightarrow> pystr \<Rightarrow> error + message"
  labels_list :: "service \<Rightarrow> error + label list option"
  MIMEText :: "pyval \<Rightarrow> error + 'm"
  setitem :: "'m \<Rightarrow> pystr \<Rightarrow> pyval \<Rightarrow> error + 'm"
  as_bytes :: "'m \<Rightarrow> error + byte list"

text \<open>A computation that may raise and may change the world.\<close>

type_synonym 'a io = "world \<Rightarrow> (error + 'a) \<times> world"

definition return_io :: "'a \<Rightarrow> 'a io" where
  "return_io x w = (Inr x, w)"

definition lift_err :: "error + 'a \<Rightarrow> 'a io" where
  "lift_err r w = (r, w)"

definition bind_io :: "'a io \<Rightarrow> ('a \<Rightarrow> 'b io) \<Rightarrow> 'b io" where
  "bind_io m f w = (case m w of (Inl e, w') \<Rightarrow> (Inl e, w') | (Inr x, w') \<Rightarrow> f x w')"

text \<open>A round-trip: the request is recorded, then its answer is returned or raised.\<close>

definition request :: "event \<Rightarrow> error + 'a \<Rightarrow> 'a io" where
  "request ev r w = (r, w\<lparr>trace := trace w @ [ev]\<rparr>)"

section \<open>The credential store: \<open>get_gmail_service\<close>\<close>

definition SCOPES :: "pystr list" where
  "SCOPES =
     [lit ''https://www.googleapis.com/auth/gmail.readonly'',
      lit ''https://www.googleapis.com/auth/gmail.send'',
      lit ''https://www.googleapis.com/auth/gmail.modify'']"

definition token_path :: "'m env \<Rightarrow> pystr" where
  "token_path env = dict_get (environ env) (lit ''GMAIL_TOKEN_PATH'') (lit ''token.json'')"

definition credentials_path :: "'m env \<Rightarrow> pystr" where
  "credentials_path env =
     dict_get (environ env) (lit ''GMAIL_CREDENTIALS_PATH'') (lit ''credentials.json'')"

text \<open>Lines 30 and 34 to 35: \<open>creds\<close> stays \<open>None\<close> unless the token file exists.\<close>

definition load_token :: "'m env \<Rightarrow> credentials option io" where
  "load_token env w =
     (case fs w (token_path env) of
        None \<Rightarrow> (Inr None, w)
      | Some content \<Rightarrow>
          (bind_err (from_authorized_user_file env content SCOPES) (\<lambda>c. Inr (Some c)), w))"

text \<open>Lines 49 to 52: the token file is rewritten and the service is built.\<close>

definition save_token :: "'m env \<Rightarrow> credentials \<Rightarrow> service io" where
  "save_token env creds w =
     (Inr (Service creds), w\<lparr>fs := (fs w)(token_path env \<mapsto> to_json env creds)\<rparr>)"

text \<open>Lines 41 to 47: the interactive authorisation, which needs the credentials file.\<close>

definition authorize :: "'m env \<Rightarrow> credentials io" where
  "authorize env w =
     (case fs w (credentials_path env) of
        None \<Rightarrow>
          (Inl (FileNotFoundError
             (lit ''Credentials file not found at '' @ credentials_path env
              @ lit ''. Please download it from Google Cloud Console.'')), w)
      | Some content \<Rightarrow>
          bind_io (lift_err (from_client_secrets_file env content SCOPES))
            (\<lambda>flow. request (RunLocalServer flow) (run_local_server env flow)) w)"

text \<open>The truth value of \<open>creds.refresh_token\<close>: \<open>None\<close> and the empty string are false.\<close>

definition truthy :: "pystr option \<Rightarrow> bool" where
  "truthy t = (case t of None \<Rightarrow> False | Some s \<Rightarrow> s \<noteq> [])"

definition get_gmail_service :: "'m env \<Rightarrow> service io" where
  "get_gmail_service env =
     bind_io (load_token env) (\<lambda>creds.
       case creds of
         None \<Rightarrow> bind_io (authorize env) (save_token env)
       | Some c \<Rightarrow>
           if \<not> valid c then
             (if expired c \<and> truthy (refresh_token c)
              then bind_io (request (Refresh c) (refresh env c)) (save_token env)
              else bind_io (authorize env) (save_token env))
           else return_io (Service c))"

section \<open>The tool registry: \<open>list_tools\<close>\<close>

datatype property =
  Property (ptype: pystr) (pdescription: pystr) (pdefault: "pyval option")

datatype schema =
  Schema (stype: pystr) (properties: "(pystr \<times> property) list") (required: "pystr list option")

datatype tool = Tool (tool_name: pystr) (tool_description: pystr) (inputSchema: schema)

definition list_tools :: "tool list" where
  "list_tools =
     [Tool (lit ''gmail_search'')
        (lit ''Search for emails in Gmail using Gmail's search syntax'')
        (Schema (lit ''object'')
           [(lit ''query'',
             Property (lit ''string'')
               (lit ''Gmail search query (e.g., 'from:example@gmail.com', 'subject:meeting', 'is:unread')'')
               None),
            (lit ''max_results'',
             Property (lit ''integer'')
               (lit ''Maximum number of results to return (default: 10)'')
               (Some (VInt 10)))]
           (Some [lit ''query''])),
      Tool (lit ''gmail_read'')
        (lit ''Read the full content of a specific email by its ID'')
        (Schema (lit ''object'')
           [(lit ''message_id'',
             Property (lit ''string'') (lit ''The ID of the email message to read'') None)]
           (Some [lit ''message_id''])),
      Tool (lit ''gmail_send'')
        (lit ''Send an email through Gmail'')
        (Schema (lit ''object'')
           [(lit ''to'', Property (lit ''string'') (lit ''Recipient email address'') None),
            (lit ''subject'', Property (lit ''string'') (lit ''Email subject'') None),
            (lit ''body'', Property (lit ''string'') (lit ''Email body content'') None)]
           (Some [lit ''to'', lit ''subject'', lit ''body''])),
      Tool (lit ''gmail_list_labels'')
        (lit ''List all labels in the Gmail account'')
        (Schema (lit ''object'') [] None)]"

section \<open>The handlers\<close>

text \<open>
  The dictionary comprehension \<open>{h["name"]: h["value"] for h in ...}\<close>: a later header
  of the same name replaces an earlier one.
\<close>

fun build_headers :: "(pystr \<rightharpoonup> pystr) \<Rightarrow> header list \<Rightarrow> error + (pystr \<rightharpoonup> pystr)" where
  "build_headers d [] = Inr d"
| "build_headers d (h # hs) =
     bind_err (field (lit ''name'') (hname h)) (\<lambda>n.
     bind_err (field (lit ''value'') (hvalue h)) (\<lambda>v.
     build_headers (d(n \<mapsto> v)) hs))"

text \<open>\<open>{...} for h in msg["payload"]["headers"]\<close>.\<close>

definition message_headers :: "message \<Rightarrow> error + (pystr \<rightharpoonup> pystr)" where
  "message_headers msg =
     bind_err (field (lit ''payload'') (payload msg)) (\<lambda>p.
     bind_err (field (lit ''headers'') (headers p)) (build_headers Map.empty))"

subsection \<open>\<open>_search_emails\<close>\<close>

text \<open>The f-string of lines 165 to 169.\<close>

definition summary_block :: "pystr \<Rightarrow> (pystr \<rightharpoonup> pystr) \<Rightarrow> pystr" where
  "summary_block i hdrs =
     lit ''ID: '' @ i @ nl
     @ lit ''From: '' @ dict_get hdrs (lit ''From'') (lit ''Unknown'') @ nl
     @ lit ''Subject: '' @ dict_get hdrs (lit ''Subject'') (lit ''No Subject'') @ nl
     @ lit ''Date: '' @ dict_get hdrs (lit ''Date'') (lit ''Unknown'') @ nl
     @ lit ''---''"

text \<open>The loop of lines 159 to 170; \<open>output.append\<close> builds the list front to back.\<close>

fun search_loop :: "'m env \<Rightarrow> service \<Rightarrow> message list \<Rightarrow> pystr list io" where
  "search_loop env svc [] w = (Inr [], w)"
| "search_loop env svc (msg # rest) w =
     (case field (lit ''id'') (msg_id msg) of
        Inl e \<Rightarrow> (Inl e, w)
      | Inr i \<Rightarrow>
          (case request (MessagesGet (VStr i) (lit ''metadata''))
                  (messages_get env svc (VStr i) (lit ''metadata'')) w of
             (Inl e, w1) \<Rightarrow> (Inl e, w1)
           | (Inr msg_data, w1) \<Rightarrow>
               (case message_headers msg_data of
                  Inl e \<Rightarrow> (Inl e, w1)
                | Inr hdrs \<Rightarrow>
                    (case search_loop env svc rest w1 of
                       (Inl e, w2) \<Rightarrow> (Inl e, w2)
                     | (Inr out, w2) \<Rightarrow> (Inr (summary_block i hdrs # out), w2)))))"

definition search_emails :: "'m env \<Rightarrow> service \<Rightarrow> arguments \<Rightarrow> textcontent list io" where
  "search_emails env svc arguments =
     bind_io (lift_err (getitem arguments (lit ''query''))) (\<lambda>query.
     let max_results = dict_get arguments (lit ''max_results'') (VInt 10) in
     bind_io (request (MessagesList query max_results)
                (messages_list env svc query max_results)) (\<lambda>results.
     let messages = (case results of None \<Rightarrow> [] | Some ms \<Rightarrow> ms) in
     if messages = [] then return_io [TextContent (lit ''text'') (lit ''No messages found.'')]
     else bind_io (search_loop env svc messages) (\<lambda>output.
            return_io [TextContent (lit ''text'') (join nl output)])))"

subsection \<open>\<open>_read_email\<close>\<close>

text \<open>\<open>base64.urlsafe_b64decode(data).decode("utf-8")\<close>.\<close>

definition decode_body :: "pystr \<Rightarrow> error + pystr" where
  "decode_body d = bind_err (urlsafe_b64decode d) utf8_decode"

text \<open>The loop of lines 186 to 189: the first \<open>text/plain\<close> part ends the scan.\<close>

fun scan_parts :: "part list \<Rightarrow> error + pystr" where
  "scan_parts [] = Inr []"
| "scan_parts (p # ps) =
     bind_err (field (lit ''mimeType'') (mimeType p)) (\<lambda>mt.
       if mt = lit ''text/plain'' then
         bind_err (field (lit ''body'') (body p)) (\<lambda>b.
         bind_err (field (lit ''data'') (body_data b)) decode_body)
       else scan_parts ps)"

text \<open>Lines 184 to 191.\<close>

definition extract_body :: "part \<Rightarrow> error + pystr" where
  "extract_body p =
     (case parts p of
        Some ps \<Rightarrow> scan_parts ps
      | None \<Rightarrow>
          (case body p of
             Some b \<Rightarrow> (case body_data b of Some d \<Rightarrow> decode_body d | None \<Rightarrow> Inr [])
           | None \<Rightarrow> Inr []))"

text \<open>The f-string of lines 193 to 199.\<close>

definition detail_text :: "(pystr \<rightharpoonup> pystr) \<Rightarrow> pystr \<Rightarrow> pystr" where
  "detail_text hdrs b =
     lit ''From: '' @ dict_get hdrs (lit ''From'') (lit ''Unknown'') @ nl
     @ lit ''To: '' @ dict_get hdrs (lit ''To'') (lit ''Unknown'') @ nl
     @ lit ''Subject: '' @ dict_get hdrs (lit ''Subject'') (lit ''No Subject'') @ nl
     @ lit ''Date: '' @ dict_get hdrs (lit ''Date'') (lit ''Unknown'') @ nl
     @ nl @ b"

definition read_email :: "'m env \<Rightarrow> service \<Rightarrow> arguments \<Rightarrow> textcontent list io" where
  "read_email env svc arguments =
     bind_io (lift_err (getitem arguments (lit ''message_id''))) (\<lambda>message_id.
     bind_io (request (MessagesGet message_id (lit ''full''))
                (messages_get env svc message_id (lit ''full''))) (\<lambda>msg.
     bind_io (lift_err (message_headers msg)) (\<lambda>hdrs.
     bind_io (lift_err (bind_err (field (lit ''payload'') (payload msg)) extract_body)) (\<lambda>b.
     return_io [TextContent (lit ''text'') (detail_text hdrs b)]))))"

subsection \<open>\<open>_send_email\<close>\<close>

definition send_email :: "'m env \<Rightarrow> service \<Rightarrow> arguments \<Rightarrow> textcontent list io" where
  "send_email env svc arguments =
     bind_io (lift_err (bind_err (getitem arguments (lit ''body'')) (MIMEText env))) (\<lambda>m0.
     bind_io (lift_err (bind_err (getitem arguments (lit ''to''))
                (setitem env m0 (lit ''to'')))) (\<lambda>m1.
     bind_io (lift_err (bind_err (getitem arguments (lit ''subject''))
                (setitem env m1 (lit ''subject'')))) (\<lambda>m2.
     bind_io (lift_err (bind_err (as_bytes env m2)
                (\<lambda>bs. utf8_decode (urlsafe_b64encode bs)))) (\<lambda>raw.
     bind_io (request (MessagesSend raw) (messages_send env svc raw)) (\<lambda>sent_message.
     bind_io (lift_err (field (lit ''id'') (msg_id sent_message))) (\<lambda>i.
     return_io
       [TextContent (lit ''text'') (lit ''Email sent successfully. Message ID: '' @ i)]))))))"

subsection \<open>\<open>_list_labels\<close>\<close>

text \<open>The loop of lines 225 to 226.\<close>

fun label_lines :: "label list \<Rightarrow> error + pystr list" where
  "label_lines [] = Inr []"
| "label_lines (l # ls) =
     bind_err (field (lit ''name'') (label_name l)) (\<lambda>n.
     bind_err (field (lit ''id'') (label_id l)) (\<lambda>i.
     bind_err (label_lines ls) (\<lambda>rest.
     Inr ((lit ''- '' @ n @ lit '' (ID: '' @ i @ lit '')'') # rest))))"

definition list_labels :: "'m env \<Rightarrow> service \<Rightarrow> textcontent list io" where
  "list_labels env svc =
     bind_io (request LabelsList (labels_list env svc)) (\<lambda>results.
     let labels = (case results of None \<Rightarrow> [] | Some ls \<Rightarrow> ls) in
     if labels = [] then return_io [TextContent (lit ''text'') (lit ''No labels found.'')]
     else bind_io (lift_err (label_lines labels)) (\<lambda>lines.
            return_io
              [TextContent (lit ''text'')
                 (join nl ([lit ''Gmail Labels:'', lit ''---''] @ lines))]))"

section \<open>The dispatcher: \<open>call_tool\<close>\<close>

definition call_tool :: "'m env \<Rightarrow> pystr \<Rightarrow> arguments \<Rightarrow> textcontent list io" where
  "call_tool env name arguments =
     bind_io (get_gmail_service env) (\<lambda>svc.
       if name = lit ''gmail_search'' then search_emails env svc arguments
       else if name = lit ''gmail_read'' then read_email env svc arguments
       else if name = lit ''gmail_send'' then send_email env svc arguments
       else if name = lit ''gmail_list_labels'' then list_labels env svc
       else lift_err (Inl (ValueError (lit ''Unknown tool: '' @ name))))"

section \<open>Notions used in the statements and proofs\<close>

text \<open>The characters \<open>b2a_base64\<close> produces: ASCII, and neither \<open>-\<close> nor \<open>_\<close>.\<close>

definition b64_out :: "byte \<Rightarrow> bool" where
  "b64_out c = (unat c < 128 \<and> c \<noteq> 45 \<and> c \<noteq> 95)"

text \<open>
  What one turn of the search loop learns about message \<open>i\<close>: the header dictionary
  of its metadata, or the exception that the fetch or the dictionary raises.
\<close>

definition fetch_headers :: "'m env \<Rightarrow> service \<Rightarrow> pystr \<Rightarrow> error + (pystr \<rightharpoonup> pystr)" where
  "fetch_headers env svc i =
     bind_err (messages_get env svc (VStr i) (lit ''metadata'')) message_headers"

text \<open>The header list of message \<open>i\<close> as the metadata fetch returns it, if it does.\<close>

definition metadata_headers :: "'m env \<Rightarrow> service \<Rightarrow> pystr \<Rightarrow> header list option" where
  "metadata_headers env svc i =
     (case messages_get env svc (VStr i) (lit ''metadata'') of
        Inl e \<Rightarrow> None
      | Inr msg \<Rightarrow> (case payload msg of None \<Rightarrow> None | Some p \<Rightarrow> headers p))"

text \<open>A part that the scan of \<open>_read_email\<close> passes over: it has a type, and not \<open>text/plain\<close>.\<close>

definition other_type :: "part \<Rightarrow> bool" where
  "other_type p = (case mimeType p of None \<Rightarrow> False | Some mt \<Rightarrow> mt \<noteq> lit ''text/plain'')"

text \<open>A header with both its name and its value, and a header list without the name \<open>k\<close>.\<close>

definition complete_header :: "header \<Rightarrow> bool" where
  "complete_header h = (hname h \<noteq> None \<and> hvalue h \<noteq> None)"

definition lacks :: "header list \<Rightarrow> pystr \<Rightarrow> bool" where
  "lacks hl k = (Some k \<notin> set (map hname hl))"

text \<open>
  What Python's \<open>email\<close> package renders for \<open>MIMEText(b)\<close> with the headers \<open>to\<close> and
  \<open>subject\<close> set to \<open>t\<close> and \<open>s\<close>, when the three are plain: a header value of
  printable ASCII that does not start with a blank and fits the header line of 78
  characters is written as it is, and so is an ASCII text without carriage return
  (34 is the double quote).
\<close>

definition header_line :: "pystr \<Rightarrow> pystr \<Rightarrow> pystr" where
  "header_line k v = k @ lit '': '' @ v @ nl"

definition mime_text :: "pystr \<Rightarrow> pystr \<Rightarrow> pystr \<Rightarrow> pystr" where
  "mime_text t s b =
     header_line (lit ''Content-Type'') (lit ''text/plain; charset='' @ [34] @ lit ''us-ascii'' @ [34])
     @ header_line (lit ''MIME-Version'') (lit ''1.0'')
     @ header_line (lit ''Content-Transfer-Encoding'') (lit ''7bit'')
     @ header_line (lit ''to'') t
     @ header_line (lit ''subject'') s
     @ nl @ b"

definition plain_value :: "pystr \<Rightarrow> pystr \<Rightarrow> bool" where
  "plain_value k v =
     (list_all (\<lambda>c. 32 \<le> c \<and> c < 127) v
      \<and> (case v of [] \<Rightarrow> True | c # cs \<Rightarrow> c \<noteq> 32)
      \<and> length k + 2 + length v \<le> 78)"

definition plain_body :: "pystr \<Rightarrow> bool" where
  "plain_body b = list_all (\<lambda>c. c < 128 \<and> c \<noteq> 13) b"





section \<open>Sample inputs\<close>

text \<open>
  A small process environment for concrete runs: an authorisation library that reads
  the token file content \<open>stale\<close> as an expired credential with a refresh token and
  anything else as a valid one, a one-message mailbox, and the sample MIME library.
\<close>

definition fresh_credentials :: credentials where
  "fresh_credentials = \<lparr>valid = True, expired = False, refresh_token = Some (lit ''r1'')\<rparr>"

definition stale_credentials :: credentials where
  "stale_credentials = \<lparr>valid = False, expired = True, refresh_token = Some (lit ''r1'')\<rparr>"

text \<open>
  The sample MIME library follows Python's \<open>email\<close> package on plain arguments and
  on embedded headers: \<open>MIMEText\<close> of an ASCII text carries the three headers the
  package sets;
  a header assignment appends to the headers; \<open>as_bytes\<close> writes each plain header
  value and a plain text as they are, and raises \<open>HeaderParseError\<close> for a header
  value in which a line break is followed by a header name and a colon
  (\<open>embedded_header\<close>), as the package does. A text that is not a string raises
  \<open>AttributeError\<close>, and so does a header value that is neither a string nor \<open>None\<close>,
  which is written as the empty value. The folding and encoding of other header values
  and the encoding and line-break normalisation of other texts are outside the sample,
  which raises its own error there.
\<close>

fun colon_after_name :: "bool \<Rightarrow> pystr \<Rightarrow> bool" where
  "colon_after_name seen [] = False"
| "colon_after_name seen (c # cs) =
     (if c = 58 then seen
      else if 33 \<le> c \<and> c \<le> 126 then colon_after_name True cs
      else False)"

fun embedded_header :: "pystr \<Rightarrow> bool" where
  "embedded_header [] = False"
| "embedded_header (c # cs) = ((c = 10 \<and> colon_after_name False cs) \<or> embedded_header cs)"

type_synonym mime = "(pystr \<times> pyval) list \<times> pystr"

definition outside_sample :: error where
  "outside_sample = ExternalError (lit ''outside the sample library'')"

definition sample_MIMEText :: "pyval \<Rightarrow> error + mime" where
  "sample_MIMEText v =
     (case v of
        VStr s \<Rightarrow>
          if list_all (\<lambda>c. c < 128) s
          then Inr ([(lit ''Content-Type'',
                      VStr (lit ''text/plain; charset='' @ [34] @ lit ''us-ascii'' @ [34])),
                     (lit ''MIME-Version'', VStr (lit ''1.0'')),
                     (lit ''Content-Transfer-Encoding'', VStr (lit ''7bit''))], s)
          else Inl outside_sample
      | _ \<Rightarrow> Inl (ExternalError (lit ''AttributeError'')))"

definition sample_setitem :: "mime \<Rightarrow> pystr \<Rightarrow> pyval \<Rightarrow> error + mime" where
  "sample_setitem m k v = Inr (fst m @ [(k, v)], snd m)"

definition sample_fold :: "pystr \<Rightarrow> pyval \<Rightarrow> error + pystr" where
  "sample_fold k v =
     (case v of
        VStr s \<Rightarrow>
          if plain_value k s then Inr (header_line k s)
          else if list_all (\<lambda>c. c = 10 \<or> 32 \<le> c \<and> c < 127) s
                  \<and> length k + 2 + length s \<le> 78 \<and> embedded_header s
          then Inl (ExternalError (lit ''HeaderParseError''))
          else Inl outside_sample
      | VNone \<Rightarrow> Inr (header_line k [])
      | _ \<Rightarrow> Inl (ExternalError (lit ''AttributeError'')))"

fun sample_headers :: "(pystr \<times> pyval) list \<Rightarrow> error + pystr" where
  "sample_headers [] = Inr []"
| "sample_headers ((k, v) # hs) =
     bind_err (sample_fold k v) (\<lambda>l.
     bind_err (sample_headers hs) (\<lambda>ls. Inr (l @ ls)))"

definition sample_as_bytes :: "mime \<Rightarrow> error + byte list" where
  "sample_as_bytes m =
     bind_err (sample_headers (fst m)) (\<lambda>hs.
       if plain_body (snd m) then Inr (map of_nat (hs @ nl @ snd m))
       else Inl outside_sample)"

definition sample_message :: message where
  "sample_message =
     Message (Some (lit ''m1''))
       (Some (Part (Some (lit ''text/plain''))
          (Some [Header (Some (lit ''Subject'')) (Some (lit ''Hi''))])
          (Some (PartBody (Some (lit ''aGk='')))) None))"

definition sample_env :: "mime env" where
  "sample_env =
     \<lparr>environ = Map.empty,
      from_authorized_user_file =
        (\<lambda>content scopes. Inr (if content = lit ''stale'' then stale_credentials
                                else fresh_credentials)),
      refresh = (\<lambda>c. Inr fresh_credentials),
      from_client_secrets_file = (\<lambda>content scopes. Inr (ClientConfig content)),
      run_local_server = (\<lambda>flow. Inr fresh_credentials),
      to_json = (\<lambda>c. lit ''fresh''),
      messages_list = (\<lambda>svc q n. Inr (Some [Message (Some (lit ''m1'')) None])),
      messages_get = (\<lambda>svc i fmt. Inr sample_message),
      messages_send = (\<lambda>svc raw. Inr (Message (Some (lit ''m2'')) None)),
      labels_list = (\<lambda>svc. Inr (Some [Label (Some (lit ''L1'')) (Some (lit ''INBOX''))])),
      MIMEText = sample_MIMEText,
      setitem = sample_setitem,
      as_bytes = sample_as_bytes\<rparr>"

definition empty_world :: world where
  "empty_world = \<lparr>fs = Map.empty, trace = []\<rparr>"

definition stale_world :: world where
  "stale_world = \<lparr>fs = [lit ''token.json'' \<mapsto> lit ''stale''], trace = []\<rparr>"

definition ready_world :: world where
  "ready_world = \<lparr>fs = [lit ''token.json'' \<mapsto> lit ''ok''], trace = []\<rparr>"

text \<open>
  Messages for the body extraction: plain text only two levels down; an HTML part
  before two plain parts; and a payload with neither parts nor body nor headers.
\<close>

definition nested_message :: message where
  "nested_message =
     Message (Some (lit ''m3''))
       (Some (Part (Some (lit ''multipart/mixed'')) (Some []) (Some (PartBody None))
          (Some [Part (Some (lit ''multipart/alternative'')) None None
             (Some [Part (Some (lit ''text/plain'')) None
                      (Some (PartBody (Some (lit ''aGk='')))) None])])))"

definition two_part_message :: message where
  "two_part_message =
     Message (Some (lit ''m4''))
       (Some (Part (Some (lit ''multipart/alternative'')) (Some []) None
          (Some [Part (Some (lit ''text/html'')) None (Some (PartBody (Some (lit ''PGI-'')))) None,
                 Part (Some (lit ''text/plain'')) None (Some (PartBody (Some (lit ''aGk='')))) None,
                 Part (Some (lit ''text/plain'')) None (Some (PartBody (Some (lit ''eW8='')))) None])))"

definition bare_message :: message where
  "bare_message = Message (Some (lit ''m5'')) (Some (Part None (Some []) None None))"

text \<open>
  A message whose only part is a \<open>text/plain\<close> attachment, its body carrying no inline
  data, and a message whose top-level body carries none.
\<close>

definition attachment_message :: message where
  "attachment_message =
     Message (Some (lit ''m7''))
       (Some (Part (Some (lit ''multipart/mixed'')) (Some []) None
          (Some [Part (Some (lit ''text/plain'')) None (Some (PartBody None)) None])))"

definition empty_body_message :: message where
  "empty_body_message =
     Message (Some (lit ''m8''))
       (Some (Part (Some (lit ''text/plain'')) (Some []) (Some (PartBody None)) None))"

section \<open>Properties of the codecs\<close>

lemma unat_of_nat_byte: "x < 256 \<Longrightarrow> unat (of_nat x :: byte) = x"
  by (simp add: unat_of_nat)

lemma unat_byte_less: "unat (b :: byte) < 256"
  using unsigned_less [of b, where 'a = nat] by simp

lemma b64code_less: "b64code v < 128"
  by (auto simp: b64code_def)

lemma unat_b64char: "unat (b64char v) = b64code v"
  unfolding b64char_def using b64code_less [of v] by (simp only: unat_of_nat_byte)

lemma b64val_b64char: "v < 64 \<Longrightarrow> b64val (b64char v) = Some v"
  by (auto simp: b64val_def unat_b64char Let_def b64code_def)

lemma b64char_not_pad: "v < 64 \<Longrightarrow> b64char v \<noteq> 61"
proof
  assume v: "v < 64" and "b64char v = 61"
  then have "unat (b64char v) = 61" by simp
  with v show False by (auto simp: unat_b64char b64code_def split: if_splits)
qed

lemma a2b_data:
  "v < 64 \<Longrightarrow> a2b_base64 q l p (b64char v # cs) =
     (if q = 0 then a2b_base64 1 v 0 cs
      else if q = 1 then emit (of_nat (l * 4 + v div 16)) (a2b_base64 2 (v mod 16) 0 cs)
      else if q = 2 then emit (of_nat (l * 16 + v div 4)) (a2b_base64 3 (v mod 4) 0 cs)
      else emit (of_nat (l * 64 + v)) (a2b_base64 0 0 0 cs))"
  by (simp only: a2b_base64.simps b64val_b64char b64char_not_pad if_False option.case)

lemma a2b_pad:
  "a2b_base64 q l p (61 # cs) =
     (if 2 \<le> q \<and> 4 \<le> q + (p + 1) then Inr []
      else a2b_base64 q l (if 2 \<le> q then p + 1 else p) cs)"
  by (simp del: a2b_base64.simps add: a2b_base64.simps(2) [of q l p 61 cs])

lemma a2b_data0:
  "v < 64 \<Longrightarrow> a2b_base64 0 l p (b64char v # cs) = a2b_base64 1 v 0 cs"
  by (simp add: a2b_data del: a2b_base64.simps)

lemma a2b_data1:
  "v < 64 \<Longrightarrow> a2b_base64 1 l p (b64char v # cs) =
     emit (of_nat (l * 4 + v div 16)) (a2b_base64 2 (v mod 16) 0 cs)"
  by (simp add: a2b_data del: a2b_base64.simps of_nat_add of_nat_mult)

lemma a2b_data2:
  "v < 64 \<Longrightarrow> a2b_base64 2 l p (b64char v # cs) =
     emit (of_nat (l * 16 + v div 4)) (a2b_base64 3 (v mod 4) 0 cs)"
  by (simp add: a2b_data del: a2b_base64.simps of_nat_add of_nat_mult)

lemma a2b_data3:
  "v < 64 \<Longrightarrow> a2b_base64 3 l p (b64char v # cs) =
     emit (of_nat (l * 64 + v)) (a2b_base64 0 0 0 cs)"
  by (simp add: a2b_data del: a2b_base64.simps of_nat_add of_nat_mult)

lemma a2b_pad2: "a2b_base64 2 l 0 (61 # 61 # cs) = Inr []"
  by (simp add: a2b_pad del: a2b_base64.simps)

lemma a2b_pad3: "a2b_base64 3 l 0 (61 # cs) = Inr []"
  by (simp add: a2b_pad del: a2b_base64.simps)

lemma sextet_bounds:
  fixes a b c :: byte
  shows "unat a div 4 < 64"
    and "unat a mod 4 * 16 + unat b div 16 < 64"
    and "unat b mod 16 * 4 + unat c div 64 < 64"
    and "unat c mod 64 < 64"
    and "unat a mod 4 * 16 < 64"
    and "unat b mod 16 * 4 < 64"
proof -
  have a: "unat a < 256" and b: "unat b < 256" and c: "unat c < 256"
    by (rule unat_byte_less)+
  show "unat a div 4 < 64" using a by simp
  have "unat b div 16 < 16" using b by simp
  moreover have "unat a mod 4 < 4" by simp
  ultimately show "unat a mod 4 * 16 + unat b div 16 < 64" by linarith
  have "unat c div 64 < 4" using c by simp
  moreover have "unat b mod 16 < 16" by simp
  ultimately show "unat b mod 16 * 4 + unat c div 64 < 64" by linarith
  show "unat c mod 64 < 64" by simp
  show "unat a mod 4 * 16 < 64" using \<open>unat a mod 4 < 4\<close> by linarith
  show "unat b mod 16 * 4 < 64" using \<open>unat b mod 16 < 16\<close> by linarith
qed

lemma regroup:
  fixes a b c :: byte
  shows "of_nat (unat a div 4 * 4 + (unat a mod 4 * 16 + unat b div 16) div 16) = a"
    and "of_nat ((unat a mod 4 * 16 + unat b div 16) mod 16 * 16
           + (unat b mod 16 * 4 + unat c div 64) div 4) = b"
    and "of_nat ((unat b mod 16 * 4 + unat c div 64) mod 4 * 64 + unat c mod 64) = c"
    and "of_nat ((unat a mod 4 * 16 + unat b div 16) mod 16 * 16
           + (unat b mod 16 * 4) div 4) = b"
    and "of_nat (unat a div 4 * 4 + (unat a mod 4 * 16) div 16) = a"
proof -
  have a: "unat a < 256" and b: "unat b < 256" and c: "unat c < 256"
    by (rule unat_byte_less)+
  have "unat a div 4 * 4 + (unat a mod 4 * 16 + unat b div 16) div 16 = unat a"
    using b by simp
  then show "of_nat (unat a div 4 * 4 + (unat a mod 4 * 16 + unat b div 16) div 16) = a"
    by (simp only: of_nat_unat ucast_id)
  have "(unat a mod 4 * 16 + unat b div 16) mod 16 * 16
          + (unat b mod 16 * 4 + unat c div 64) div 4 = unat b"
    using b c by (simp add: div_mult2_eq)
  then show "of_nat ((unat a mod 4 * 16 + unat b div 16) mod 16 * 16
           + (unat b mod 16 * 4 + unat c div 64) div 4) = b"
    by (simp only: of_nat_unat ucast_id)
  have "(unat b mod 16 * 4 + unat c div 64) mod 4 * 64 + unat c mod 64 = unat c"
    using c by simp
  then show "of_nat ((unat b mod 16 * 4 + unat c div 64) mod 4 * 64 + unat c mod 64) = c"
    by (simp only: of_nat_unat ucast_id)
  have "(unat a mod 4 * 16 + unat b div 16) mod 16 * 16 + (unat b mod 16 * 4) div 4 = unat b"
    using b by simp
  then show "of_nat ((unat a mod 4 * 16 + unat b div 16) mod 16 * 16
           + (unat b mod 16 * 4) div 4) = b"
    by (simp only: of_nat_unat ucast_id)
  have "unat a div 4 * 4 + (unat a mod 4 * 16) div 16 = unat a"
    by simp
  then show "of_nat (unat a div 4 * 4 + (unat a mod 4 * 16) div 16) = a"
    by (simp only: of_nat_unat ucast_id)
qed

lemma a2b_b2a: "a2b_base64 0 l p (b2a_base64 bs) = Inr bs"
proof (induction bs arbitrary: l p rule: b2a_base64.induct)
  case (1 a b c rest)
  let ?s0 = "unat a div 4"
  let ?s1 = "unat a mod 4 * 16 + unat b div 16"
  let ?s2 = "unat b mod 16 * 4 + unat c div 64"
  let ?s3 = "unat c mod 64"
  let ?r = "b2a_base64 rest"
  have "a2b_base64 0 l p (b2a_base64 (a # b # c # rest))
      = a2b_base64 0 l p (b64char ?s0 # b64char ?s1 # b64char ?s2 # b64char ?s3 # ?r)"
    by simp
  also have "\<dots> = a2b_base64 1 ?s0 0 (b64char ?s1 # b64char ?s2 # b64char ?s3 # ?r)"
    by (rule a2b_data0 [OF sextet_bounds(1)])
  also have "\<dots> = emit (of_nat (?s0 * 4 + ?s1 div 16))
      (a2b_base64 2 (?s1 mod 16) 0 (b64char ?s2 # b64char ?s3 # ?r))"
    by (rule a2b_data1 [OF sextet_bounds(2)])
  also have "\<dots> = emit a (emit (of_nat (?s1 mod 16 * 16 + ?s2 div 4))
      (a2b_base64 3 (?s2 mod 4) 0 (b64char ?s3 # ?r)))"
    by (simp only: regroup(1) a2b_data2 [OF sextet_bounds(3)])
  also have "\<dots> = emit a (emit b (emit (of_nat (?s2 mod 4 * 64 + ?s3))
      (a2b_base64 0 0 0 ?r)))"
    by (simp only: regroup(2) a2b_data3 [OF sextet_bounds(4)])
  also have "\<dots> = Inr (a # b # c # rest)"
    by (simp only: regroup(3) 1 emit_def sum.case)
  finally show ?case .
next
  case (2 a b)
  let ?s0 = "unat a div 4"
  let ?s1 = "unat a mod 4 * 16 + unat b div 16"
  let ?s2 = "unat b mod 16 * 4"
  have "a2b_base64 0 l p (b2a_base64 [a, b])
      = a2b_base64 0 l p (b64char ?s0 # b64char ?s1 # b64char ?s2 # 61 # [])"
    by simp
  also have "\<dots> = a2b_base64 1 ?s0 0 (b64char ?s1 # b64char ?s2 # 61 # [])"
    by (rule a2b_data0 [OF sextet_bounds(1)])
  also have "\<dots> = emit (of_nat (?s0 * 4 + ?s1 div 16))
      (a2b_base64 2 (?s1 mod 16) 0 (b64char ?s2 # 61 # []))"
    by (rule a2b_data1 [OF sextet_bounds(2)])
  also have "\<dots> = emit a (emit (of_nat (?s1 mod 16 * 16 + ?s2 div 4))
      (a2b_base64 3 (?s2 mod 4) 0 (61 # [])))"
    by (simp only: regroup(1) a2b_data2 [OF sextet_bounds(6)])
  also have "\<dots> = Inr [a, b]"
    by (simp only: regroup(4) a2b_pad3 emit_def sum.case)
  finally show ?case .
next
  case (3 a)
  let ?s0 = "unat a div 4"
  let ?s1 = "unat a mod 4 * 16"
  have "a2b_base64 0 l p (b2a_base64 [a])
      = a2b_base64 0 l p (b64char ?s0 # b64char ?s1 # 61 # 61 # [])"
    by simp
  also have "\<dots> = a2b_base64 1 ?s0 0 (b64char ?s1 # 61 # 61 # [])"
    by (rule a2b_data0 [OF sextet_bounds(1)])
  also have "\<dots> = emit (of_nat (?s0 * 4 + ?s1 div 16))
      (a2b_base64 2 (?s1 mod 16) 0 (61 # 61 # []))"
    by (rule a2b_data1 [OF sextet_bounds(5)])
  also have "\<dots> = Inr [a]"
    by (simp only: regroup(5) a2b_pad2 emit_def sum.case)
  finally show ?case .
next
  case 4
  show ?case by simp
qed

lemma b64char_urlsafe: "v < 64 \<Longrightarrow> b64char v \<noteq> 45 \<and> b64char v \<noteq> 95"
proof -
  assume v: "v < 64"
  have "unat (b64char v) \<noteq> 45 \<and> unat (b64char v) \<noteq> 95"
    using v by (auto simp: unat_b64char b64code_def)
  then show ?thesis by auto
qed

lemma b64char_ascii: "unat (b64char v) < 128"
  by (simp add: unat_b64char b64code_less)

lemma b64_out_char: "v < 64 \<Longrightarrow> b64_out (b64char v)"
  by (simp add: b64_out_def b64char_ascii b64char_urlsafe)

lemma b64_out_pad: "b64_out 61"
  by (simp add: b64_out_def)

lemma b2a_out: "list_all b64_out (b2a_base64 bs)"
  by (induction bs rule: b2a_base64.induct)
     (simp_all add: b64_out_char b64_out_pad sextet_bounds)

lemma urlsafe_translate_inverse:
  "list_all b64_out cs \<Longrightarrow> map from_urlsafe (map to_urlsafe cs) = cs"
  by (induction cs) (auto simp: b64_out_def to_urlsafe_def from_urlsafe_def)

lemma urlsafe_ascii: "list_all (\<lambda>c. unat c < 128) (urlsafe_b64encode bs)"
proof -
  have "list_all b64_out cs \<Longrightarrow> list_all (\<lambda>c. unat c < 128) (map to_urlsafe cs)"
    for cs :: "byte list"
    by (induction cs) (auto simp: b64_out_def to_urlsafe_def)
  then show ?thesis
    unfolding urlsafe_b64encode_def using b2a_out by blast
qed

lemma utf8_decode_ascii:
  "list_all (\<lambda>c. unat c < 128) bs \<Longrightarrow> utf8_decode bs = Inr (map unat bs)"
  by (induction bs) (simp_all add: utf8_next_def emit_def)

lemma ascii_encode_unat:
  "list_all (\<lambda>c. unat c < 128) bs \<Longrightarrow> ascii_encode (map unat bs) = Inr bs"
  by (simp add: ascii_encode_def list_all_iff map_idI)

lemma urlsafe_roundtrip:
  "urlsafe_b64decode (map unat (urlsafe_b64encode bs)) = Inr bs"
proof -
  have 1: "ascii_encode (map unat (urlsafe_b64encode bs)) = Inr (urlsafe_b64encode bs)"
    by (rule ascii_encode_unat [OF urlsafe_ascii])
  have 2: "map from_urlsafe (urlsafe_b64encode bs) = b2a_base64 bs"
    unfolding urlsafe_b64encode_def by (rule urlsafe_translate_inverse [OF b2a_out])
  show ?thesis
    unfolding urlsafe_b64decode_def by (simp only: 1 2 bind_err_def sum.case a2b_b2a)
qed

lemma raw_text: "utf8_decode (urlsafe_b64encode bs) = Inr (map unat (urlsafe_b64encode bs))"
  by (rule utf8_decode_ascii [OF urlsafe_ascii])

lemma utf8_next_1:
  "c < 0x80 \<Longrightarrow> utf8_next (of_nat c) rest = Inr (c, 0)"
  by (simp add: utf8_next_def unat_of_nat_byte del: of_nat_add of_nat_mult)

lemma split_64:
  fixes c :: nat
  shows "c div 4096 * 4096 + c div 64 mod 64 * 64 + c mod 64 = c"
    and "c div 262144 * 262144 + c div 4096 mod 64 * 4096 + c div 64 mod 64 * 64 + c mod 64 = c"
proof -
  have 0: "c = c div 64 * 64 + c mod 64" by simp
  have 1: "c div 64 = c div 64 div 64 * 64 + c div 64 mod 64" by simp
  have 2: "c div 4096 = c div 4096 div 64 * 64 + c div 4096 mod 64" by simp
  have 3: "c div 64 div 64 = c div 4096" by (simp add: div_mult2_eq)
  have 4: "c div 4096 div 64 = c div 262144" by (simp add: div_mult2_eq)
  show "c div 4096 * 4096 + c div 64 mod 64 * 64 + c mod 64 = c"
    using 0 1 3 by linarith
  show "c div 262144 * 262144 + c div 4096 mod 64 * 4096 + c div 64 mod 64 * 64 + c mod 64 = c"
    using 0 1 2 3 4 by linarith
qed

lemma utf8_next_2:
  assumes "\<not> c < 0x80" "c < 0x800"
  shows "utf8_next (of_nat (0xC0 + c div 64)) (of_nat (0x80 + c mod 64) # rest) = Inr (c, 1)"
proof -
  have lo: "2 \<le> c div 64" and hi: "c div 64 < 32"
    using assms by simp_all
  have a: "unat (of_nat (0xC0 + c div 64) :: byte) = 0xC0 + c div 64"
    using hi by (intro unat_of_nat_byte) simp
  have b: "unat (of_nat (0x80 + c mod 64) :: byte) = 0x80 + c mod 64"
    by (intro unat_of_nat_byte) simp
  show ?thesis
    using lo hi by (simp add: utf8_next_def a b cont_def del: of_nat_add)
qed

lemma utf8_next_3:
  assumes "\<not> c < 0x800" "c < 0x10000" "\<not> (0xD800 \<le> c \<and> c \<le> 0xDFFF)"
  shows "utf8_next (of_nat (0xE0 + c div 4096))
           (of_nat (0x80 + c div 64 mod 64) # of_nat (0x80 + c mod 64) # rest) = Inr (c, 2)"
proof -
  have hi: "c div 4096 < 16"
    using assms by simp
  have a: "unat (of_nat (0xE0 + c div 4096) :: byte) = 0xE0 + c div 4096"
    using hi by (intro unat_of_nat_byte) simp
  have b: "unat (of_nat (0x80 + c div 64 mod 64) :: byte) = 0x80 + c div 64 mod 64"
    by (intro unat_of_nat_byte) simp
  have d: "unat (of_nat (0x80 + c mod 64) :: byte) = 0x80 + c mod 64"
    by (intro unat_of_nat_byte) simp
  show ?thesis
    using assms hi by (simp add: utf8_next_def a b d cont_def split_64 del: of_nat_add)
qed

lemma utf8_next_4:
  assumes "\<not> c < 0x10000" "c < 0x110000"
  shows "utf8_next (of_nat (0xF0 + c div 262144))
           (of_nat (0x80 + c div 4096 mod 64) # of_nat (0x80 + c div 64 mod 64)
              # of_nat (0x80 + c mod 64) # rest) = Inr (c, 3)"
proof -
  have hi: "c div 262144 < 5"
    using assms by simp
  have a: "unat (of_nat (0xF0 + c div 262144) :: byte) = 0xF0 + c div 262144"
    using hi by (intro unat_of_nat_byte) simp
  have b: "unat (of_nat (0x80 + c div 4096 mod 64) :: byte) = 0x80 + c div 4096 mod 64"
    by (intro unat_of_nat_byte) simp
  have b': "unat (of_nat (0x80 + c div 64 mod 64) :: byte) = 0x80 + c div 64 mod 64"
    by (intro unat_of_nat_byte) simp
  have d: "unat (of_nat (0x80 + c mod 64) :: byte) = 0x80 + c mod 64"
    by (intro unat_of_nat_byte) simp
  show ?thesis
    using assms hi by (simp add: utf8_next_def a b b' d cont_def split_64 del: of_nat_add)
qed

lemma utf8_decode_encode_cp:
  "utf8_encode_cp c = Inr bs \<Longrightarrow> utf8_decode (bs @ rest) = emit c (utf8_decode rest)"
  by (auto simp: utf8_encode_cp_def utf8_next_1 utf8_next_2 utf8_next_3 utf8_next_4
      split: if_splits simp del: of_nat_add of_nat_mult)

lemma utf8_roundtrip: "utf8_encode s = Inr bs \<Longrightarrow> utf8_decode bs = Inr s"
proof (induction s arbitrary: bs)
  case Nil
  then show ?case by simp
next
  case (Cons c cs)
  from Cons.prems obtain xs ys where
    xs: "utf8_encode_cp c = Inr xs" and ys: "utf8_encode cs = Inr ys" and bs: "bs = xs @ ys"
    by (auto simp: bind_err_def split: sum.splits)
  show ?case
    by (simp only: bs utf8_decode_encode_cp [OF xs] Cons.IH [OF ys] emit_def sum.case)
qed

section \<open>Properties of the credential store and the dispatcher\<close>

lemmas io_defs = bind_io_def lift_err_def return_io_def request_def

lemma authorize_trace:
  "filter is_mail_request (trace (snd (authorize env w))) = filter is_mail_request (trace w)"
  by (simp add: authorize_def io_defs split: option.splits sum.splits)

lemma save_token_trace: "trace (snd (save_token env c w)) = trace w"
  by (simp add: save_token_def)

lemma load_token_world: "snd (load_token env w) = w"
  by (simp add: load_token_def split: option.splits)

lemma get_gmail_service_trace:
  "filter is_mail_request (trace (snd (get_gmail_service env w)))
     = filter is_mail_request (trace w)"
proof -
  have a: "filter is_mail_request (trace (snd (bind_io (authorize env) (save_token env) w')))
      = filter is_mail_request (trace w')" for w'
    using authorize_trace [of env w']
    by (cases "authorize env w'") (auto simp: bind_io_def save_token_def split: sum.splits)
  have r: "filter is_mail_request
        (trace (snd (bind_io (request (Refresh c) (refresh env c)) (save_token env) w')))
      = filter is_mail_request (trace w')" for c w'
    by (simp add: bind_io_def request_def save_token_def split: sum.splits)
  obtain r0 w0 where l: "load_token env w = (r0, w0)" by (cases "load_token env w")
  with load_token_world [of env w] have w0: "w0 = w" by simp
  show ?thesis
    unfolding get_gmail_service_def
    by (simp add: bind_io_def [of "load_token env"] l w0 a r return_io_def
        split: sum.splits option.splits)
qed

lemma call_tool_with_service:
  "get_gmail_service env w = (Inr svc, w') \<Longrightarrow>
     call_tool env name arguments w =
       (if name = lit ''gmail_search'' then search_emails env svc arguments
        else if name = lit ''gmail_read'' then read_email env svc arguments
        else if name = lit ''gmail_send'' then send_email env svc arguments
        else if name = lit ''gmail_list_labels'' then list_labels env svc
        else lift_err (Inl (ValueError (lit ''Unknown tool: '' @ name)))) w'"
  by (simp add: call_tool_def bind_io_def)

lemma call_tool_without_service:
  "get_gmail_service env w = (Inl e, w') \<Longrightarrow> call_tool env name arguments w = (Inl e, w')"
  by (simp add: call_tool_def bind_io_def)

lemmas sample_defs = sample_env_def empty_world_def stale_world_def ready_world_def
  stale_credentials_def fresh_credentials_def token_path_def credentials_path_def dict_get_def

lemma sample_service:
  "get_gmail_service sample_env ready_world = (Inr (Service fresh_credentials), ready_world)"
  by (simp add: get_gmail_service_def load_token_def io_defs bind_err_def sample_defs lit_def)

lemma tool_names_distinct:
  "lit ''gmail_read'' \<noteq> lit ''gmail_search''"
  "lit ''gmail_send'' \<noteq> lit ''gmail_search''"
  "lit ''gmail_send'' \<noteq> lit ''gmail_read''"
  "lit ''gmail_list_labels'' \<noteq> lit ''gmail_search''"
  "lit ''gmail_list_labels'' \<noteq> lit ''gmail_read''"
  "lit ''gmail_list_labels'' \<noteq> lit ''gmail_send''"
  by (simp_all add: lit_def)

lemma sample_service_get:
  "get_gmail_service (sample_env\<lparr>messages_get := g\<rparr>) ready_world
      = (Inr (Service fresh_credentials), ready_world)"
  by (simp add: get_gmail_service_def load_token_def io_defs bind_err_def sample_defs lit_def)

section \<open>Properties of the handlers\<close>

lemma label_lines_map:
  "label_lines (map (\<lambda>(i, n). Label (Some i) (Some n)) ls)
     = Inr (map (\<lambda>(i, n). lit ''- '' @ n @ lit '' (ID: '' @ i @ lit '')'') ls)"
  by (induction ls) (auto simp: bind_err_def field_def)

lemma search_loop_blocks:
  "map msg_id ms = map Some ids \<Longrightarrow> map (fetch_headers env svc) ids = map Inr hs \<Longrightarrow>
     search_loop env svc ms w =
       (Inr (map2 summary_block ids hs),
        w\<lparr>trace := trace w @ map (\<lambda>i. MessagesGet (VStr i) (lit ''metadata'')) ids\<rparr>)"
proof (induction ms arbitrary: ids hs w)
  case Nil
  then show ?case by simp
next
  case (Cons m ms)
  from Cons.prems(1) obtain i ids' where ids: "ids = i # ids'" and i: "msg_id m = Some i"
    and rest: "map msg_id ms = map Some ids'"
    by (cases ids) auto
  from Cons.prems(2) ids obtain h hs' where hs: "hs = h # hs'"
    and h: "fetch_headers env svc i = Inr h"
    and rest': "map (fetch_headers env svc) ids' = map Inr hs'"
    by (cases hs) auto
  from h obtain md where md: "messages_get env svc (VStr i) (lit ''metadata'') = Inr md"
    and mh: "message_headers md = Inr h"
    by (auto simp: fetch_headers_def bind_err_def split: sum.splits)
  show ?case
    by (simp add: ids hs i field_def request_def md mh Cons.IH [OF rest rest'])
qed

lemma search_emails_blocks:
  assumes "arguments (lit ''query'') = Some q"
    and "messages_list env svc q (dict_get arguments (lit ''max_results'') (VInt 10)) = Inr (Some ms)"
    and "ms \<noteq> []" and "map msg_id ms = map Some ids"
    and "map (fetch_headers env svc) ids = map Inr hs"
  shows "search_emails env svc arguments w =
        (Inr [TextContent (lit ''text'') (join nl (map2 summary_block ids hs))],
         w\<lparr>trace := trace w @ MessagesList q (dict_get arguments (lit ''max_results'') (VInt 10))
            # map (\<lambda>i. MessagesGet (VStr i) (lit ''metadata'')) ids\<rparr>)"
  using assms(3)
  by (simp add: search_emails_def io_defs getitem_def assms(1,2)
      search_loop_blocks [OF assms(4,5)] del: join.simps)

lemma scan_parts_skip: "list_all other_type pre \<Longrightarrow> scan_parts (pre @ rest) = scan_parts rest"
  by (induction pre) (auto simp: other_type_def bind_err_def field_def split: option.splits)

lemma scan_parts_none: "list_all other_type ps \<Longrightarrow> scan_parts ps = Inr []"
  using scan_parts_skip [of ps "[]"] by simp

lemma scan_parts_first:
  assumes "list_all other_type pre" and "mimeType tp = Some (lit ''text/plain'')"
    and "body tp = Some b" and "body_data b = Some d"
  shows "scan_parts (pre @ tp # post) = decode_body d"
  using assms(2-) by (simp add: scan_parts_skip [OF assms(1)] bind_err_def field_def)

lemma read_email_text:
  assumes "arguments (lit ''message_id'') = Some mid"
    and "messages_get env svc mid (lit ''full'') = Inr msg"
    and "payload msg = Some p" and "headers p = Some hl"
    and "build_headers Map.empty hl = Inr h"
    and "extract_body p = Inr b"
  shows "read_email env svc arguments w =
      (Inr [TextContent (lit ''text'') (detail_text h b)],
       w\<lparr>trace := trace w @ [MessagesGet mid (lit ''full'')]\<rparr>)"
  using assms
  by (simp add: read_email_def io_defs getitem_def message_headers_def bind_err_def field_def)


lemma build_headers_lacks:
  "list_all complete_header hl \<Longrightarrow>
     \<exists>h. build_headers d hl = Inr h \<and> (\<forall>k. lacks hl k \<longrightarrow> h k = d k)"
proof (induction hl arbitrary: d)
  case Nil
  then show ?case by simp
next
  case (Cons x hl)
  from Cons.prems have cx: "complete_header x" and rest: "list_all complete_header hl"
    by simp_all
  from cx obtain n v where x: "hname x = Some n" "hvalue x = Some v"
    by (auto simp: complete_header_def)
  from Cons.IH [OF rest, of "d(n \<mapsto> v)"] obtain h where
    h: "build_headers (d(n \<mapsto> v)) hl = Inr h" "\<forall>k. lacks hl k \<longrightarrow> h k = (d(n \<mapsto> v)) k"
    by blast
  have "build_headers d (x # hl) = Inr h"
    by (simp add: x h(1) bind_err_def field_def)
  moreover have "h k = d k" if "lacks (x # hl) k" for k
    using that h(2) x(1) by (auto simp: lacks_def)
  ultimately show ?case by blast
qed

lemma fetch_headers_lacks:
  "map (metadata_headers env svc) ids = map Some hls \<Longrightarrow>
   list_all (list_all complete_header) hls \<Longrightarrow>
     \<exists>hs. map (fetch_headers env svc) ids = map Inr hs
        \<and> list_all2 (\<lambda>hl h. \<forall>k. lacks hl k \<longrightarrow> h k = None) hls hs"
proof (induction ids arbitrary: hls)
  case Nil
  then show ?case by simp
next
  case (Cons i ids)
  from Cons.prems(1) obtain hl hls' where hls: "hls = hl # hls'"
    and i: "metadata_headers env svc i = Some hl"
    and rest: "map (metadata_headers env svc) ids = map Some hls'"
    by (cases hls) auto
  from Cons.prems(2) hls have c: "list_all complete_header hl"
    and c': "list_all (list_all complete_header) hls'"
    by simp_all
  from build_headers_lacks [OF c, of Map.empty] obtain h where
    h: "build_headers Map.empty hl = Inr h" "\<forall>k. lacks hl k \<longrightarrow> h k = None"
    by auto
  from i have "fetch_headers env svc i = Inr h"
    by (auto simp: metadata_headers_def fetch_headers_def message_headers_def bind_err_def
        field_def h(1) split: sum.splits option.splits)
  moreover from Cons.IH [OF rest c'] obtain hs where
    "map (fetch_headers env svc) ids = map Inr hs"
    "list_all2 (\<lambda>hl h. \<forall>k. lacks hl k \<longrightarrow> h k = None) hls' hs"
    by blast
  ultimately show ?case
    using h(2) hls by (intro exI [of _ "h # hs"]) simp
qed









text \<open>The sample library renders every plain message as \<open>mime_text\<close> has it.\<close>

lemma sample_library_renders:
  assumes "plain_value (lit ''to'') t" and "plain_value (lit ''subject'') s" and "plain_body b"
  shows "bind_err (sample_MIMEText (VStr b)) (\<lambda>m0.
         bind_err (sample_setitem m0 (lit ''to'') (VStr t)) (\<lambda>m1.
         bind_err (sample_setitem m1 (lit ''subject'') (VStr s)) sample_as_bytes))
       = Inr (map of_nat (mime_text t s b))"
proof -
  have a: "list_all (\<lambda>c. c < 128) b"
    using assms(3) by (simp add: plain_body_def list_all_iff)
  have h: "plain_value (lit ''Content-Type'')
        (lit ''text/plain; charset='' @ 34 # lit ''us-ascii'' @ [34])"
    "plain_value (lit ''MIME-Version'') (lit ''1.0'')"
    "plain_value (lit ''Content-Transfer-Encoding'') (lit ''7bit'')"
    by (simp_all add: plain_value_def lit_def)
  show ?thesis
    by (simp add: sample_MIMEText_def sample_setitem_def sample_as_bytes_def sample_fold_def
        bind_err_def a h assms mime_text_def)
qed

lemma decode_hi: "urlsafe_b64decode (lit ''aGk='') = Inr [104, 105]"
  by (simp add: urlsafe_b64decode_def ascii_encode_def lit_def bind_err_def from_urlsafe_def
      b64val_def emit_def)

lemma utf8_hi: "utf8_decode [104, 105] = Inr [104, 105]"
  by (simp add: utf8_next_def emit_def)

section \<open>The claims\<close>

text \<open>
  Claim C1, as the code has it. \<open>call_tool\<close> resolves the credentials before it looks
  at the tool name. For a name outside the registry the call therefore ends as the
  credential store ends when that fails, and with \<open>ValueError\<close> (the unknown-tool
  error) in the world the credential store left behind when it succeeds; in both cases
  no request of the mail client is made.
\<close>

theorem unknown_tool_after_credentials:
  assumes "name \<notin> set (map tool_name list_tools)"
  shows "call_tool env name arguments w =
      (case get_gmail_service env w of
         (Inl e, w') \<Rightarrow> (Inl e, w')
       | (Inr svc, w') \<Rightarrow> (Inl (ValueError (lit ''Unknown tool: '' @ name)), w'))
    \<and> filter is_mail_request (trace (snd (call_tool env name arguments w)))
        = filter is_mail_request (trace w)"
proof -
  from assms have n: "name \<noteq> lit ''gmail_search''" "name \<noteq> lit ''gmail_read''"
    "name \<noteq> lit ''gmail_send''" "name \<noteq> lit ''gmail_list_labels''"
    by (auto simp: list_tools_def)
  have 1: "call_tool env name arguments w =
      (case get_gmail_service env w of
         (Inl e, w') \<Rightarrow> (Inl e, w')
       | (Inr svc, w') \<Rightarrow> (Inl (ValueError (lit ''Unknown tool: '' @ name)), w'))"
    using n by (simp add: call_tool_def bind_io_def lift_err_def split: prod.splits sum.splits)
  have "snd (call_tool env name arguments w) = snd (get_gmail_service env w)"
    unfolding 1 by (simp split: prod.splits sum.splits)
  with 1 get_gmail_service_trace [of env w] show ?thesis by simp
qed

theorem unknown_tool_after_credentials_witness:
  "lit ''gmail_delete'' \<notin> set (map tool_name list_tools)
   \<and> call_tool sample_env (lit ''gmail_delete'') Map.empty ready_world =
       (Inl (ValueError (lit ''Unknown tool: gmail_delete'')), ready_world)"
proof -
  have n: "lit ''gmail_delete'' \<notin> set (map tool_name list_tools)"
    by (simp add: list_tools_def lit_def)
  from unknown_tool_after_credentials [OF n, of sample_env Map.empty ready_world]
  show ?thesis
    using n by (simp add: sample_service) (simp add: lit_def)
qed

text \<open>
  Claim C1 as stated fails: with neither token nor credentials file the unknown tool is
  answered by \<open>FileNotFoundError\<close>, and with an expired token the refresh round-trip
  and the rewrite of the token file happen before the \<open>ValueError\<close>.
\<close>

theorem unknown_tool_counterexample:
  "call_tool sample_env (lit ''gmail_delete'') Map.empty empty_world =
     (Inl (FileNotFoundError
        (lit ''Credentials file not found at credentials.json. Please download it from Google Cloud Console.'')),
      empty_world)
   \<and> call_tool sample_env (lit ''gmail_delete'') Map.empty stale_world =
     (Inl (ValueError (lit ''Unknown tool: gmail_delete'')),
      \<lparr>fs = [lit ''token.json'' \<mapsto> lit ''fresh''], trace = [Refresh stale_credentials]\<rparr>)"
  by (simp add: call_tool_def get_gmail_service_def load_token_def authorize_def save_token_def
      truthy_def io_defs bind_err_def sample_defs lit_def)

text \<open>
  Claim C2. The claim holds of the top-level path, which looks for the body data before
  it reads it, and fails of the scan of the parts, which does not: for a message whose
  first \<open>text/plain\<close> part carries no inline data (a text attachment), no plain-text
  body is found, and read raises \<open>KeyError\<close> for \<open>data\<close> where the claim has an empty
  body and a call that does not fail. The same body without data at the top level
  gives the empty body.
\<close>

theorem read_text_plain_without_data:
  "call_tool (sample_env\<lparr>messages_get := \<lambda>svc i fmt. Inr attachment_message\<rparr>)
      (lit ''gmail_read'') [lit ''message_id'' \<mapsto> VStr (lit ''m7'')] ready_world =
     (Inl (KeyError (lit ''data'')),
      ready_world\<lparr>trace := [MessagesGet (VStr (lit ''m7'')) (lit ''full'')]\<rparr>)
   \<and> call_tool (sample_env\<lparr>messages_get := \<lambda>svc i fmt. Inr empty_body_message\<rparr>)
      (lit ''gmail_read'') [lit ''message_id'' \<mapsto> VStr (lit ''m8'')] ready_world =
     (Inr [TextContent (lit ''text'') (detail_text Map.empty [])],
      ready_world\<lparr>trace := [MessagesGet (VStr (lit ''m8'')) (lit ''full'')]\<rparr>)"
proof -
  have 1: "read_email (sample_env\<lparr>messages_get := \<lambda>svc i fmt. Inr attachment_message\<rparr>)
      (Service fresh_credentials) [lit ''message_id'' \<mapsto> VStr (lit ''m7'')] ready_world =
     (Inl (KeyError (lit ''data'')),
      ready_world\<lparr>trace := [MessagesGet (VStr (lit ''m7'')) (lit ''full'')]\<rparr>)"
    by (simp add: read_email_def io_defs getitem_def message_headers_def bind_err_def field_def
        extract_body_def attachment_message_def ready_world_def)
  have 2: "read_email (sample_env\<lparr>messages_get := \<lambda>svc i fmt. Inr empty_body_message\<rparr>)
      (Service fresh_credentials) [lit ''message_id'' \<mapsto> VStr (lit ''m8'')] ready_world =
     (Inr [TextContent (lit ''text'') (detail_text Map.empty [])],
      ready_world\<lparr>trace := [MessagesGet (VStr (lit ''m8'')) (lit ''full'')]\<rparr>)"
    by (simp add: read_email_def io_defs getitem_def message_headers_def bind_err_def field_def
        extract_body_def empty_body_message_def ready_world_def)
  from 1 2 show ?thesis
    by (simp add: call_tool_with_service [OF sample_service_get] tool_names_distinct)
qed

text \<open>
  What the extraction does for the messages it handles, whose payload and header list
  arrive: with a parts array, the body is the URL-safe base64 and UTF-8 decoding of the
  data of the first part of type \<open>text/plain\<close>, the parts before it having other
  types; when every part of the array has another type the body is empty, whatever
  those parts contain inside, since the scan looks at the listed parts only; without a
  parts array the body is the decoding of the top-level body data, and empty when there
  is no body or no data.
\<close>

lemma read_body:
  assumes "get_gmail_service env w = (Inr svc, w')"
    and "arguments (lit ''message_id'') = Some mid"
    and "messages_get env svc mid (lit ''full'') = Inr msg"
    and "payload msg = Some p" and "headers p = Some hl"
    and "build_headers Map.empty hl = Inr h"
  shows "(parts p = Some (pre @ tp # post) \<and> list_all other_type pre
          \<and> mimeType tp = Some (lit ''text/plain'')
          \<and> body tp = Some b \<and> body_data b = Some d
          \<and> urlsafe_b64decode d = Inr bs \<and> utf8_decode bs = Inr t \<longrightarrow>
            call_tool env (lit ''gmail_read'') arguments w =
              (Inr [TextContent (lit ''text'') (detail_text h t)],
               w'\<lparr>trace := trace w' @ [MessagesGet mid (lit ''full'')]\<rparr>))
    \<and> (parts p = Some ps \<and> list_all other_type ps \<longrightarrow>
            call_tool env (lit ''gmail_read'') arguments w =
              (Inr [TextContent (lit ''text'') (detail_text h [])],
               w'\<lparr>trace := trace w' @ [MessagesGet mid (lit ''full'')]\<rparr>))
    \<and> (parts p = None \<and> body p = Some b \<and> body_data b = Some d
          \<and> urlsafe_b64decode d = Inr bs \<and> utf8_decode bs = Inr t \<longrightarrow>
            call_tool env (lit ''gmail_read'') arguments w =
              (Inr [TextContent (lit ''text'') (detail_text h t)],
               w'\<lparr>trace := trace w' @ [MessagesGet mid (lit ''full'')]\<rparr>))
    \<and> (parts p = None \<and> (body p = None \<or> body p = Some (PartBody None)) \<longrightarrow>
            call_tool env (lit ''gmail_read'') arguments w =
              (Inr [TextContent (lit ''text'') (detail_text h [])],
               w'\<lparr>trace := trace w' @ [MessagesGet mid (lit ''full'')]\<rparr>))"
proof -
  note call = call_tool_with_service [OF assms(1), of "lit ''gmail_read''" arguments]
  note rd = read_email_text [where arguments = arguments and w = "w'", OF assms(2-6)]
  have 1: "extract_body p = Inr t"
    if "parts p = Some (pre @ tp # post)" "list_all other_type pre"
      "mimeType tp = Some (lit ''text/plain'')" "body tp = Some b" "body_data b = Some d"
      "urlsafe_b64decode d = Inr bs" "utf8_decode bs = Inr t"
    using that(1,6,7)
    by (simp add: extract_body_def scan_parts_first [OF that(2-5)] decode_body_def bind_err_def)
  have 2: "extract_body p = Inr []" if "parts p = Some ps" "list_all other_type ps"
    using that by (simp add: extract_body_def scan_parts_none)
  have 3: "extract_body p = Inr t"
    if "parts p = None" "body p = Some b" "body_data b = Some d"
      "urlsafe_b64decode d = Inr bs" "utf8_decode bs = Inr t"
    using that by (simp add: extract_body_def decode_body_def bind_err_def)
  have 4: "extract_body p = Inr []"
    if "parts p = None" "body p = None \<or> body p = Some (PartBody None)"
    using that by (auto simp: extract_body_def)
  show ?thesis
    using rd [OF 1] rd [OF 2] rd [OF 3] rd [OF 4]
    by (simp add: call tool_names_distinct)
qed

lemma read_body_samples:
  "call_tool (sample_env\<lparr>messages_get := \<lambda>svc i fmt. Inr two_part_message\<rparr>)
      (lit ''gmail_read'') [lit ''message_id'' \<mapsto> VStr (lit ''m4'')] ready_world =
     (Inr [TextContent (lit ''text'') (detail_text Map.empty (lit ''hi''))],
      ready_world\<lparr>trace := [MessagesGet (VStr (lit ''m4'')) (lit ''full'')]\<rparr>)
   \<and> call_tool (sample_env\<lparr>messages_get := \<lambda>svc i fmt. Inr nested_message\<rparr>)
      (lit ''gmail_read'') [lit ''message_id'' \<mapsto> VStr (lit ''m3'')] ready_world =
     (Inr [TextContent (lit ''text'') (detail_text Map.empty [])],
      ready_world\<lparr>trace := [MessagesGet (VStr (lit ''m3'')) (lit ''full'')]\<rparr>)
   \<and> call_tool (sample_env\<lparr>messages_get := \<lambda>svc i fmt. Inr sample_message\<rparr>)
      (lit ''gmail_read'') [lit ''message_id'' \<mapsto> VStr (lit ''m1'')] ready_world =
     (Inr [TextContent (lit ''text'') (detail_text [lit ''Subject'' \<mapsto> lit ''Hi''] (lit ''hi''))],
      ready_world\<lparr>trace := [MessagesGet (VStr (lit ''m1'')) (lit ''full'')]\<rparr>)
   \<and> call_tool (sample_env\<lparr>messages_get := \<lambda>svc i fmt. Inr bare_message\<rparr>)
      (lit ''gmail_read'') [lit ''message_id'' \<mapsto> VStr (lit ''m5'')] ready_world =
     (Inr [TextContent (lit ''text'') (detail_text Map.empty [])],
      ready_world\<lparr>trace := [MessagesGet (VStr (lit ''m5'')) (lit ''full'')]\<rparr>)"
proof -
  let ?html = "Part (Some (lit ''text/html'')) None (Some (PartBody (Some (lit ''PGI-'')))) None"
  let ?plain = "Part (Some (lit ''text/plain'')) None (Some (PartBody (Some (lit ''aGk='')))) None"
  let ?plain2 = "Part (Some (lit ''text/plain'')) None (Some (PartBody (Some (lit ''eW8='')))) None"
  let ?alt = "Part (Some (lit ''multipart/alternative'')) None None (Some [?plain])"
  have o: "other_type ?html" "other_type ?alt"
    by (simp_all add: other_type_def lit_def)
  have 1: "call_tool (sample_env\<lparr>messages_get := \<lambda>svc i fmt. Inr two_part_message\<rparr>)
      (lit ''gmail_read'') [lit ''message_id'' \<mapsto> VStr (lit ''m4'')] ready_world =
     (Inr [TextContent (lit ''text'') (detail_text Map.empty (lit ''hi''))],
      ready_world\<lparr>trace := [MessagesGet (VStr (lit ''m4'')) (lit ''full'')]\<rparr>)"
    using read_body [OF sample_service_get,
        where arguments = "[lit ''message_id'' \<mapsto> VStr (lit ''m4'')]"
          and mid = "VStr (lit ''m4'')" and msg = two_part_message
          and p = "Part (Some (lit ''multipart/alternative'')) (Some []) None
                     (Some [?html, ?plain, ?plain2])"
          and hl = "[]" and h = Map.empty and pre = "[?html]" and tp = ?plain
          and post = "[?plain2]" and b = "PartBody (Some (lit ''aGk=''))" and d = "lit ''aGk=''"
          and bs = "[104, 105]" and t = "[104, 105]"]
      o decode_hi utf8_hi
    by (simp add: two_part_message_def ready_world_def) (simp add: lit_def)
  have 2: "call_tool (sample_env\<lparr>messages_get := \<lambda>svc i fmt. Inr nested_message\<rparr>)
      (lit ''gmail_read'') [lit ''message_id'' \<mapsto> VStr (lit ''m3'')] ready_world =
     (Inr [TextContent (lit ''text'') (detail_text Map.empty [])],
      ready_world\<lparr>trace := [MessagesGet (VStr (lit ''m3'')) (lit ''full'')]\<rparr>)"
    using read_body [OF sample_service_get,
        where arguments = "[lit ''message_id'' \<mapsto> VStr (lit ''m3'')]"
          and mid = "VStr (lit ''m3'')" and msg = nested_message
          and p = "Part (Some (lit ''multipart/mixed'')) (Some []) (Some (PartBody None))
                     (Some [?alt])"
          and hl = "[]" and h = Map.empty and ps = "[?alt]"]
      o
    by (simp add: nested_message_def ready_world_def)
  have 3: "call_tool (sample_env\<lparr>messages_get := \<lambda>svc i fmt. Inr sample_message\<rparr>)
      (lit ''gmail_read'') [lit ''message_id'' \<mapsto> VStr (lit ''m1'')] ready_world =
     (Inr [TextContent (lit ''text'') (detail_text [lit ''Subject'' \<mapsto> lit ''Hi''] (lit ''hi''))],
      ready_world\<lparr>trace := [MessagesGet (VStr (lit ''m1'')) (lit ''full'')]\<rparr>)"
    using read_body [OF sample_service_get,
        where arguments = "[lit ''message_id'' \<mapsto> VStr (lit ''m1'')]"
          and mid = "VStr (lit ''m1'')" and msg = sample_message
          and p = "Part (Some (lit ''text/plain''))
                     (Some [Header (Some (lit ''Subject'')) (Some (lit ''Hi''))])
                     (Some (PartBody (Some (lit ''aGk='')))) None"
          and hl = "[Header (Some (lit ''Subject'')) (Some (lit ''Hi''))]"
          and h = "[lit ''Subject'' \<mapsto> lit ''Hi'']"
          and b = "PartBody (Some (lit ''aGk=''))" and d = "lit ''aGk=''"
          and bs = "[104, 105]" and t = "[104, 105]"]
      decode_hi utf8_hi
    by (simp add: sample_message_def ready_world_def bind_err_def field_def) (simp add: lit_def)
  have 4: "call_tool (sample_env\<lparr>messages_get := \<lambda>svc i fmt. Inr bare_message\<rparr>)
      (lit ''gmail_read'') [lit ''message_id'' \<mapsto> VStr (lit ''m5'')] ready_world =
     (Inr [TextContent (lit ''text'') (detail_text Map.empty [])],
      ready_world\<lparr>trace := [MessagesGet (VStr (lit ''m5'')) (lit ''full'')]\<rparr>)"
    using read_body [OF sample_service_get,
        where arguments = "[lit ''message_id'' \<mapsto> VStr (lit ''m5'')]"
          and mid = "VStr (lit ''m5'')" and msg = bare_message
          and p = "Part None (Some []) None None"
          and hl = "[]" and h = Map.empty]
    by (simp add: bare_message_def ready_world_def)
  from 1 2 3 4 show ?thesis by simp
qed

text \<open>
  Claim C3. \<open>list_tools\<close> returns four tools, in the order search, read, send,
  list labels, each with a non-empty description; the schemas require \<open>query\<close>, then
  \<open>message_id\<close>, then \<open>to\<close>, \<open>subject\<close> and \<open>body\<close>, and nothing for the last
  tool, which declares no fields; \<open>max_results\<close> is declared, not required, and is the
  only field with a default, 10.
\<close>

theorem list_tools_registry:
  "map tool_name list_tools =
     [lit ''gmail_search'', lit ''gmail_read'', lit ''gmail_send'', lit ''gmail_list_labels'']
   \<and> length list_tools = 4
   \<and> list_all (\<lambda>t. tool_description t \<noteq> []) list_tools
   \<and> map (\<lambda>t. required (inputSchema t)) list_tools =
       [Some [lit ''query''], Some [lit ''message_id''],
        Some [lit ''to'', lit ''subject'', lit ''body''], None]
   \<and> map (\<lambda>t. map (\<lambda>(k, p). (k, pdefault p)) (properties (inputSchema t))) list_tools =
       [[(lit ''query'', None), (lit ''max_results'', Some (VInt 10))],
        [(lit ''message_id'', None)],
        [(lit ''to'', None), (lit ''subject'', None), (lit ''body'', None)],
        []]"
  by (simp add: list_tools_def lit_def)

text \<open>
  Claim C4. Without a token file and without a credentials file, acquiring a session
  fails with \<open>FileNotFoundError\<close> (the configuration error) and leaves the world as it
  was: nothing is added to the record of round-trips. Every tool call fails the same
  way.
\<close>

theorem no_token_no_credentials:
  assumes "fs w (token_path env) = None" and "fs w (credentials_path env) = None"
  shows "get_gmail_service env w =
      (Inl (FileNotFoundError
         (lit ''Credentials file not found at '' @ credentials_path env
          @ lit ''. Please download it from Google Cloud Console.'')), w)
    \<and> call_tool env name arguments w =
      (Inl (FileNotFoundError
         (lit ''Credentials file not found at '' @ credentials_path env
          @ lit ''. Please download it from Google Cloud Console.'')), w)"
proof -
  have g: "get_gmail_service env w =
      (Inl (FileNotFoundError
         (lit ''Credentials file not found at '' @ credentials_path env
          @ lit ''. Please download it from Google Cloud Console.'')), w)"
    using assms by (simp add: get_gmail_service_def load_token_def authorize_def bind_io_def)
  then show ?thesis by (simp add: call_tool_without_service)
qed

theorem no_token_no_credentials_witness:
  "get_gmail_service sample_env empty_world =
      (Inl (FileNotFoundError
         (lit ''Credentials file not found at credentials.json. Please download it from Google Cloud Console.'')),
       empty_world)
   \<and> trace empty_world = []"
  using no_token_no_credentials [of empty_world sample_env]
  by (simp add: empty_world_def sample_env_def token_path_def credentials_path_def
      dict_get_def lit_def)

text \<open>
  Claim C5. When the listing returns no messages, search returns exactly the text
  \<open>No messages found.\<close>. When it returns messages whose metadata can be fetched, the
  text is the blocks joined by newlines, one per listed message and in the listing's
  order, each made of the lines \<open>ID:\<close>, \<open>From:\<close>, \<open>Subject:\<close>, \<open>Date:\<close> and \<open>---\<close>.
  The one listing request carries \<open>max_results\<close> as its limit, 10 when the argument is
  absent, and nothing is added to what the listing returned: a listing that keeps to
  the limit gives at most that many blocks.
\<close>

theorem search_text:
  assumes "get_gmail_service env w = (Inr svc, w')"
    and "arguments (lit ''query'') = Some q"
    and "messages_list env svc q (dict_get arguments (lit ''max_results'') (VInt 10)) = Inr results"
  shows "(results = None \<or> results = Some [] \<longrightarrow>
           call_tool env (lit ''gmail_search'') arguments w =
             (Inr [TextContent (lit ''text'') (lit ''No messages found.'')],
              w'\<lparr>trace := trace w' @
                 [MessagesList q (dict_get arguments (lit ''max_results'') (VInt 10))]\<rparr>))
    \<and> (results = Some ms \<and> ms \<noteq> [] \<and> map msg_id ms = map Some ids
          \<and> map (fetch_headers env svc) ids = map Inr hs \<longrightarrow>
           call_tool env (lit ''gmail_search'') arguments w =
             (Inr [TextContent (lit ''text'')
                (join nl (map2 (\<lambda>i h.
                   lit ''ID: '' @ i @ nl
                   @ lit ''From: '' @ dict_get h (lit ''From'') (lit ''Unknown'') @ nl
                   @ lit ''Subject: '' @ dict_get h (lit ''Subject'') (lit ''No Subject'') @ nl
                   @ lit ''Date: '' @ dict_get h (lit ''Date'') (lit ''Unknown'') @ nl
                   @ lit ''---'') ids hs))],
              w'\<lparr>trace := trace w' @
                 MessagesList q (dict_get arguments (lit ''max_results'') (VInt 10))
                 # map (\<lambda>i. MessagesGet (VStr i) (lit ''metadata'')) ids\<rparr>)
           \<and> length (zip ids hs) = length ms
           \<and> (\<forall>n. dict_get arguments (lit ''max_results'') (VInt 10) = VInt n
                  \<and> int (length ms) \<le> n \<longrightarrow> int (length (zip ids hs)) \<le> n))
    \<and> (arguments (lit ''max_results'') = None \<longrightarrow>
           dict_get arguments (lit ''max_results'') (VInt 10) = VInt 10)"
proof -
  let ?n = "dict_get arguments (lit ''max_results'') (VInt 10)"
  have call: "call_tool env (lit ''gmail_search'') arguments w = search_emails env svc arguments w'"
    by (simp add: call_tool_with_service [OF assms(1)])
  have empty: "results = None \<or> results = Some [] \<Longrightarrow>
      search_emails env svc arguments w' =
        (Inr [TextContent (lit ''text'') (lit ''No messages found.'')],
         w'\<lparr>trace := trace w' @ [MessagesList q ?n]\<rparr>)"
    by (auto simp: search_emails_def io_defs getitem_def assms(2,3))
  have full: "search_emails env svc arguments w' =
        (Inr [TextContent (lit ''text'') (join nl (map2 summary_block ids hs))],
         w'\<lparr>trace := trace w' @ MessagesList q ?n
            # map (\<lambda>i. MessagesGet (VStr i) (lit ''metadata'')) ids\<rparr>)"
    if "results = Some ms" "ms \<noteq> []" "map msg_id ms = map Some ids"
      "map (fetch_headers env svc) ids = map Inr hs"
    using assms(2,3) that
    by (simp add: search_emails_blocks [where arguments = arguments and q = q and ms = ms
          and ids = ids and hs = hs] del: join.simps)
  have blocks: "summary_block = (\<lambda>i h.
                   lit ''ID: '' @ i @ nl
                   @ lit ''From: '' @ dict_get h (lit ''From'') (lit ''Unknown'') @ nl
                   @ lit ''Subject: '' @ dict_get h (lit ''Subject'') (lit ''No Subject'') @ nl
                   @ lit ''Date: '' @ dict_get h (lit ''Date'') (lit ''Unknown'') @ nl
                   @ lit ''---'')"
    by (rule ext)+ (simp add: summary_block_def)
  have len: "length (zip ids hs) = length ms"
    if "map msg_id ms = map Some ids" "map (fetch_headers env svc) ids = map Inr hs"
  proof -
    from that(1) have "length ms = length ids" by (metis length_map)
    moreover from that(2) have "length ids = length hs" by (metis length_map)
    ultimately show ?thesis by simp
  qed
  have dflt: "arguments (lit ''max_results'') = None \<Longrightarrow> ?n = VInt 10"
    by (simp add: dict_get_def)
  show ?thesis
    using empty full len dflt
    by (auto simp: call blocks [symmetric] simp del: join.simps)
qed

theorem search_text_witness:
  "call_tool sample_env (lit ''gmail_search'') [lit ''query'' \<mapsto> VStr (lit ''is:unread'')]
      ready_world =
     (Inr [TextContent (lit ''text'')
        (lit ''ID: m1'' @ nl @ lit ''From: Unknown'' @ nl @ lit ''Subject: Hi'' @ nl
         @ lit ''Date: Unknown'' @ nl @ lit ''---'')],
      ready_world\<lparr>trace := [MessagesList (VStr (lit ''is:unread'')) (VInt 10),
                             MessagesGet (VStr (lit ''m1'')) (lit ''metadata'')]\<rparr>)
   \<and> call_tool (sample_env\<lparr>messages_list := \<lambda>svc q n. Inr None\<rparr>) (lit ''gmail_search'')
        [lit ''query'' \<mapsto> VStr (lit ''is:unread''), lit ''max_results'' \<mapsto> VInt 5]
        ready_world =
     (Inr [TextContent (lit ''text'') (lit ''No messages found.'')],
      ready_world\<lparr>trace := [MessagesList (VStr (lit ''is:unread'')) (VInt 5)]\<rparr>)"
proof -
  have s: "get_gmail_service (sample_env\<lparr>messages_list := \<lambda>svc q n. Inr None\<rparr>) ready_world
      = (Inr (Service fresh_credentials), ready_world)"
    by (simp add: get_gmail_service_def load_token_def io_defs bind_err_def sample_defs lit_def)
  have f: "map (fetch_headers sample_env (Service fresh_credentials)) [lit ''m1'']
      = map Inr [[lit ''Subject'' \<mapsto> lit ''Hi'']]"
    by (simp add: fetch_headers_def sample_env_def sample_message_def message_headers_def
        bind_err_def field_def)
  have 1: "call_tool sample_env (lit ''gmail_search'') [lit ''query'' \<mapsto> VStr (lit ''is:unread'')]
      ready_world =
     (Inr [TextContent (lit ''text'')
        (lit ''ID: m1'' @ nl @ lit ''From: Unknown'' @ nl @ lit ''Subject: Hi'' @ nl
         @ lit ''Date: Unknown'' @ nl @ lit ''---'')],
      ready_world\<lparr>trace := [MessagesList (VStr (lit ''is:unread'')) (VInt 10),
                             MessagesGet (VStr (lit ''m1'')) (lit ''metadata'')]\<rparr>)"
    using search_text [OF sample_service, of "[lit ''query'' \<mapsto> VStr (lit ''is:unread'')]"
        "VStr (lit ''is:unread'')" "Some [Message (Some (lit ''m1'')) None]"
        "[Message (Some (lit ''m1'')) None]" "[lit ''m1'']" "[[lit ''Subject'' \<mapsto> lit ''Hi'']]"] f
    by (simp add: sample_env_def ready_world_def dict_get_def) (simp add: lit_def)
  have 2: "call_tool (sample_env\<lparr>messages_list := \<lambda>svc q n. Inr None\<rparr>) (lit ''gmail_search'')
        [lit ''query'' \<mapsto> VStr (lit ''is:unread''), lit ''max_results'' \<mapsto> VInt 5]
        ready_world =
     (Inr [TextContent (lit ''text'') (lit ''No messages found.'')],
      ready_world\<lparr>trace := [MessagesList (VStr (lit ''is:unread'')) (VInt 5)]\<rparr>)"
    using search_text [OF s, of
        "[lit ''query'' \<mapsto> VStr (lit ''is:unread''), lit ''max_results'' \<mapsto> VInt 5]"
        "VStr (lit ''is:unread'')" None]
    by (simp add: ready_world_def dict_get_def) (simp add: lit_def)
  from 1 2 show ?thesis by simp
qed

text \<open>
  Claim C6. When the remote listing has no labels, list_labels returns exactly the text
  \<open>No labels found.\<close>; otherwise the lines \<open>Gmail Labels:\<close> and \<open>---\<close> followed by one
  line \<open>- name (ID: id)\<close> per label, in the order of the listing.
\<close>

theorem list_labels_text:
  assumes "get_gmail_service env w = (Inr svc, w')"
    and "labels_list env svc = Inr results"
  shows "(results = None \<or> results = Some [] \<longrightarrow>
           call_tool env (lit ''gmail_list_labels'') arguments w =
             (Inr [TextContent (lit ''text'') (lit ''No labels found.'')],
              w'\<lparr>trace := trace w' @ [LabelsList]\<rparr>))
    \<and> (results = Some (map (\<lambda>(i, n). Label (Some i) (Some n)) ls) \<and> ls \<noteq> [] \<longrightarrow>
           call_tool env (lit ''gmail_list_labels'') arguments w =
             (Inr [TextContent (lit ''text'')
                (join nl ([lit ''Gmail Labels:'', lit ''---'']
                   @ map (\<lambda>(i, n). lit ''- '' @ n @ lit '' (ID: '' @ i @ lit '')'') ls))],
              w'\<lparr>trace := trace w' @ [LabelsList]\<rparr>))"
  by (auto simp: call_tool_with_service [OF assms(1)] tool_names_distinct list_labels_def
      io_defs assms(2) label_lines_map simp del: join.simps)

theorem list_labels_text_witness:
  "call_tool sample_env (lit ''gmail_list_labels'') Map.empty ready_world =
     (Inr [TextContent (lit ''text'') (lit ''Gmail Labels:'' @ nl @ lit ''---'' @ nl
             @ lit ''- INBOX (ID: L1)'')],
      ready_world\<lparr>trace := [LabelsList]\<rparr>)
   \<and> call_tool (sample_env\<lparr>labels_list := \<lambda>svc. Inr None\<rparr>)
        (lit ''gmail_list_labels'') Map.empty ready_world =
     (Inr [TextContent (lit ''text'') (lit ''No labels found.'')],
      ready_world\<lparr>trace := [LabelsList]\<rparr>)"
proof -
  have s: "get_gmail_service (sample_env\<lparr>labels_list := \<lambda>svc. Inr None\<rparr>) ready_world
      = (Inr (Service fresh_credentials), ready_world)"
    by (simp add: get_gmail_service_def load_token_def io_defs bind_err_def sample_defs lit_def)
  have 1: "call_tool sample_env (lit ''gmail_list_labels'') Map.empty ready_world =
     (Inr [TextContent (lit ''text'') (lit ''Gmail Labels:'' @ nl @ lit ''---'' @ nl
             @ lit ''- INBOX (ID: L1)'')],
      ready_world\<lparr>trace := [LabelsList]\<rparr>)"
    using list_labels_text [OF sample_service, of "Some [Label (Some (lit ''L1'')) (Some (lit ''INBOX''))]"
        Map.empty "[(lit ''L1'', lit ''INBOX'')]"]
    by (simp add: sample_env_def ready_world_def) (simp add: lit_def)
  have 2: "call_tool (sample_env\<lparr>labels_list := \<lambda>svc. Inr None\<rparr>)
        (lit ''gmail_list_labels'') Map.empty ready_world =
     (Inr [TextContent (lit ''text'') (lit ''No labels found.'')],
      ready_world\<lparr>trace := [LabelsList]\<rparr>)"
    using list_labels_text [OF s, of None Map.empty]
    by (simp add: ready_world_def)
  from 1 2 show ?thesis by simp
qed




text \<open>
  Claim C8. For a text \<open>t\<close> that UTF-8 encodes to \<open>bs\<close>, reading a message without a
  parts array whose top-level body data is the URL-safe base64 text of \<open>bs\<close> returns
  the header lines followed by exactly \<open>t\<close>.
\<close>

theorem read_roundtrip:
  assumes "get_gmail_service env w = (Inr svc, w')"
    and "arguments (lit ''message_id'') = Some mid"
    and "messages_get env svc mid (lit ''full'') = Inr msg"
    and "payload msg = Some p" and "headers p = Some hl"
    and "build_headers Map.empty hl = Inr h"
    and "parts p = None" and "body p = Some b" and "body_data b = Some d"
    and "utf8_encode t = Inr bs"
    and "utf8_decode (urlsafe_b64encode bs) = Inr d"
  shows "call_tool env (lit ''gmail_read'') arguments w =
      (Inr [TextContent (lit ''text'') (detail_text h t)],
       w'\<lparr>trace := trace w' @ [MessagesGet mid (lit ''full'')]\<rparr>)
    \<and> detail_text h t = detail_text h [] @ t"
proof -
  from assms(11) have d: "d = map unat (urlsafe_b64encode bs)"
    by (simp add: raw_text)
  have "decode_body d = Inr t"
    unfolding decode_body_def d
    by (simp only: urlsafe_roundtrip bind_err_def sum.case utf8_roundtrip [OF assms(10)])
  then have "extract_body p = Inr t"
    by (simp add: extract_body_def assms(7-9))
  from read_email_text [where arguments = arguments and w = "w'", OF assms(2-6) this]
  show ?thesis
    by (simp add: call_tool_with_service [OF assms(1)] tool_names_distinct detail_text_def)
qed

theorem read_roundtrip_witness:
  "call_tool
      (sample_env\<lparr>messages_get := \<lambda>svc i fmt.
         Inr (Message (Some (lit ''m6'')) (Some (Part (Some (lit ''text/plain'')) (Some [])
                (Some (PartBody (Some (lit ''aMOp4oKs'')))) None)))\<rparr>)
      (lit ''gmail_read'') [lit ''message_id'' \<mapsto> VStr (lit ''m6'')] ready_world =
     (Inr [TextContent (lit ''text'') (detail_text Map.empty [104, 233, 8364])],
      ready_world\<lparr>trace := [MessagesGet (VStr (lit ''m6'')) (lit ''full'')]\<rparr>)"
proof -
  have e: "utf8_encode [104, 233, 8364] = Inr [0x68, 0xC3, 0xA9, 0xE2, 0x82, 0xAC]"
    by (simp add: utf8_encode_cp_def bind_err_def)
  have b: "utf8_decode (urlsafe_b64encode [0x68, 0xC3, 0xA9, 0xE2, 0x82, 0xAC])
      = Inr (lit ''aMOp4oKs'')"
    by (simp add: urlsafe_b64encode_def b64char_def b64code_def to_urlsafe_def utf8_next_def
        emit_def lit_def)
  show ?thesis
    using read_roundtrip [OF sample_service_get,
        where arguments = "[lit ''message_id'' \<mapsto> VStr (lit ''m6'')]"
          and mid = "VStr (lit ''m6'')"
          and msg = "Message (Some (lit ''m6'')) (Some (Part (Some (lit ''text/plain'')) (Some [])
                (Some (PartBody (Some (lit ''aMOp4oKs'')))) None))"
          and p = "Part (Some (lit ''text/plain'')) (Some [])
                (Some (PartBody (Some (lit ''aMOp4oKs'')))) None"
          and hl = "[]" and h = Map.empty
          and b = "PartBody (Some (lit ''aMOp4oKs''))" and d = "lit ''aMOp4oKs''"
          and t = "[104, 233, 8364]" and bs = "[0x68, 0xC3, 0xA9, 0xE2, 0x82, 0xAC]", OF _ _ _ _ _ _ _ _ e b]
    by (simp add: ready_world_def)
qed

text \<open>
  Claim C9. Once the session is there, a call of a registered tool whose arguments
  lack a required field fails with \<open>KeyError\<close> (the missing-argument error) for that
  field: \<open>query\<close> for search, \<open>message_id\<close> for read, and for send \<open>body\<close>, then
  \<open>to\<close>, then \<open>subject\<close>, each looked up once the MIME message has taken the fields
  before it. The failed call leaves the world as the credential store left it.
\<close>

theorem missing_argument:
  assumes "get_gmail_service env w = (Inr svc, w')"
  shows "(arguments (lit ''query'') = None \<longrightarrow>
            call_tool env (lit ''gmail_search'') arguments w
              = (Inl (KeyError (lit ''query'')), w'))
    \<and> (arguments (lit ''message_id'') = None \<longrightarrow>
            call_tool env (lit ''gmail_read'') arguments w
              = (Inl (KeyError (lit ''message_id'')), w'))
    \<and> (arguments (lit ''body'') = None \<longrightarrow>
            call_tool env (lit ''gmail_send'') arguments w
              = (Inl (KeyError (lit ''body'')), w'))
    \<and> (arguments (lit ''body'') = Some b \<and> MIMEText env b = Inr m0
          \<and> arguments (lit ''to'') = None \<longrightarrow>
            call_tool env (lit ''gmail_send'') arguments w
              = (Inl (KeyError (lit ''to'')), w'))
    \<and> (arguments (lit ''body'') = Some b \<and> MIMEText env b = Inr m0
          \<and> arguments (lit ''to'') = Some t \<and> setitem env m0 (lit ''to'') t = Inr m1
          \<and> arguments (lit ''subject'') = None \<longrightarrow>
            call_tool env (lit ''gmail_send'') arguments w
              = (Inl (KeyError (lit ''subject'')), w'))"
proof -
  have ne: "lit ''gmail_read'' \<noteq> lit ''gmail_search''"
    "lit ''gmail_send'' \<noteq> lit ''gmail_search''" "lit ''gmail_send'' \<noteq> lit ''gmail_read''"
    by (simp_all add: lit_def)
  show ?thesis
    by (simp add: call_tool_with_service [OF assms] ne search_emails_def read_email_def
        send_email_def io_defs bind_err_def getitem_def)
qed

theorem missing_argument_witness:
  "call_tool sample_env (lit ''gmail_search'') Map.empty ready_world
      = (Inl (KeyError (lit ''query'')), ready_world)
   \<and> call_tool sample_env (lit ''gmail_read'') Map.empty ready_world
      = (Inl (KeyError (lit ''message_id'')), ready_world)
   \<and> call_tool sample_env (lit ''gmail_send'') Map.empty ready_world
      = (Inl (KeyError (lit ''body'')), ready_world)
   \<and> call_tool sample_env (lit ''gmail_send'') [lit ''body'' \<mapsto> VStr (lit ''hi'')] ready_world
      = (Inl (KeyError (lit ''to'')), ready_world)
   \<and> call_tool sample_env (lit ''gmail_send'')
        [lit ''body'' \<mapsto> VStr (lit ''hi''), lit ''to'' \<mapsto> VStr (lit ''a@b.c'')] ready_world
      = (Inl (KeyError (lit ''subject'')), ready_world)"
proof -
  note m = missing_argument [OF sample_service]
  have 1: "call_tool sample_env (lit ''gmail_search'') Map.empty ready_world
      = (Inl (KeyError (lit ''query'')), ready_world)"
    using m [of Map.empty] by simp
  have 2: "call_tool sample_env (lit ''gmail_read'') Map.empty ready_world
      = (Inl (KeyError (lit ''message_id'')), ready_world)"
    using m [of Map.empty] by simp
  have 3: "call_tool sample_env (lit ''gmail_send'') Map.empty ready_world
      = (Inl (KeyError (lit ''body'')), ready_world)"
    using m [of Map.empty] by simp
  have 4: "call_tool sample_env (lit ''gmail_send'') [lit ''body'' \<mapsto> VStr (lit ''hi'')] ready_world
      = (Inl (KeyError (lit ''to'')), ready_world)"
    using m [of "[lit ''body'' \<mapsto> VStr (lit ''hi'')]" "VStr (lit ''hi'')"
        "([(lit ''Content-Type'',
            VStr (lit ''text/plain; charset='' @ [34] @ lit ''us-ascii'' @ [34])),
           (lit ''MIME-Version'', VStr (lit ''1.0'')),
           (lit ''Content-Transfer-Encoding'', VStr (lit ''7bit''))], lit ''hi'')"]
    by (simp add: sample_env_def sample_MIMEText_def lit_def)
  have 5: "call_tool sample_env (lit ''gmail_send'')
        [lit ''body'' \<mapsto> VStr (lit ''hi''), lit ''to'' \<mapsto> VStr (lit ''a@b.c'')] ready_world
      = (Inl (KeyError (lit ''subject'')), ready_world)"
    using m [of "[lit ''body'' \<mapsto> VStr (lit ''hi''), lit ''to'' \<mapsto> VStr (lit ''a@b.c'')]"
        "VStr (lit ''hi'')"
        "([(lit ''Content-Type'',
            VStr (lit ''text/plain; charset='' @ [34] @ lit ''us-ascii'' @ [34])),
           (lit ''MIME-Version'', VStr (lit ''1.0'')),
           (lit ''Content-Transfer-Encoding'', VStr (lit ''7bit''))], lit ''hi'')"
        "VStr (lit ''a@b.c'')"
        "([(lit ''Content-Type'',
            VStr (lit ''text/plain; charset='' @ [34] @ lit ''us-ascii'' @ [34])),
           (lit ''MIME-Version'', VStr (lit ''1.0'')),
           (lit ''Content-Transfer-Encoding'', VStr (lit ''7bit'')),
           (lit ''to'', VStr (lit ''a@b.c''))], lit ''hi'')"]
    by (simp add: sample_env_def sample_MIMEText_def sample_setitem_def lit_def)
  from 1 2 3 4 5 show ?thesis by blast
qed

text \<open>
  Claim C10. Search and read return their text for messages whose header lists lack
  some of the headers: in each block of search, \<open>Unknown\<close> stands for a missing
  \<open>From\<close> or \<open>Date\<close> and \<open>No Subject\<close> for a missing \<open>Subject\<close>; read does the same
  and puts \<open>Unknown\<close> for a missing \<open>To\<close>.
\<close>

theorem missing_headers:
  assumes "get_gmail_service env w = (Inr svc, w')"
  shows "(arguments (lit ''query'') = Some q
          \<and> messages_list env svc q (dict_get arguments (lit ''max_results'') (VInt 10))
              = Inr (Some ms)
          \<and> ms \<noteq> [] \<and> map msg_id ms = map Some ids
          \<and> map (metadata_headers env svc) ids = map Some hls
          \<and> list_all (list_all complete_header) hls \<longrightarrow>
           (\<exists>blocks. fst (call_tool env (lit ''gmail_search'') arguments w)
                = Inr [TextContent (lit ''text'') (join nl blocks)]
              \<and> list_all2 (\<lambda>(i, hl) blk. \<exists>f s d.
                    blk = lit ''ID: '' @ i @ nl @ lit ''From: '' @ f @ nl
                          @ lit ''Subject: '' @ s @ nl @ lit ''Date: '' @ d @ nl @ lit ''---''
                    \<and> (lacks hl (lit ''From'') \<longrightarrow> f = lit ''Unknown'')
                    \<and> (lacks hl (lit ''Subject'') \<longrightarrow> s = lit ''No Subject'')
                    \<and> (lacks hl (lit ''Date'') \<longrightarrow> d = lit ''Unknown''))
                  (zip ids hls) blocks))
    \<and> (arguments (lit ''message_id'') = Some mid
          \<and> messages_get env svc mid (lit ''full'') = Inr msg
          \<and> payload msg = Some p \<and> headers p = Some hl \<and> list_all complete_header hl
          \<and> extract_body p = Inr b \<longrightarrow>
           (\<exists>f t s d. fst (call_tool env (lit ''gmail_read'') arguments w)
                = Inr [TextContent (lit ''text'')
                    (lit ''From: '' @ f @ nl @ lit ''To: '' @ t @ nl
                     @ lit ''Subject: '' @ s @ nl @ lit ''Date: '' @ d @ nl @ nl @ b)]
              \<and> (lacks hl (lit ''From'') \<longrightarrow> f = lit ''Unknown'')
              \<and> (lacks hl (lit ''To'') \<longrightarrow> t = lit ''Unknown'')
              \<and> (lacks hl (lit ''Subject'') \<longrightarrow> s = lit ''No Subject'')
              \<and> (lacks hl (lit ''Date'') \<longrightarrow> d = lit ''Unknown'')))"
proof (intro conjI impI)
  assume a: "arguments (lit ''query'') = Some q
          \<and> messages_list env svc q (dict_get arguments (lit ''max_results'') (VInt 10))
              = Inr (Some ms)
          \<and> ms \<noteq> [] \<and> map msg_id ms = map Some ids
          \<and> map (metadata_headers env svc) ids = map Some hls
          \<and> list_all (list_all complete_header) hls"
  then obtain hs where hs: "map (fetch_headers env svc) ids = map Inr hs"
    and l: "list_all2 (\<lambda>hl h. \<forall>k. lacks hl k \<longrightarrow> h k = None) hls hs"
    using fetch_headers_lacks by blast
  from a have len: "length ids = length hls" by (metis length_map)
  have r: "fst (call_tool env (lit ''gmail_search'') arguments w)
      = Inr [TextContent (lit ''text'') (join nl (map2 summary_block ids hs))]"
    using a by (simp add: call_tool_with_service [OF assms]
        search_emails_blocks [where w = "w'" and hs = hs and ids = ids and ms = ms and q = q] hs
        del: join.simps)
  have "list_all2 (\<lambda>(i, hl) blk. \<exists>f s d.
                    blk = lit ''ID: '' @ i @ nl @ lit ''From: '' @ f @ nl
                          @ lit ''Subject: '' @ s @ nl @ lit ''Date: '' @ d @ nl @ lit ''---''
                    \<and> (lacks hl (lit ''From'') \<longrightarrow> f = lit ''Unknown'')
                    \<and> (lacks hl (lit ''Subject'') \<longrightarrow> s = lit ''No Subject'')
                    \<and> (lacks hl (lit ''Date'') \<longrightarrow> d = lit ''Unknown''))
                  (zip ids hls) (map2 summary_block ids hs)"
    using len l
  proof (induction ids hls arbitrary: hs rule: list_induct2)
    case Nil
    then show ?case by simp
  next
    case (Cons i ids hl hls)
    from Cons.prems obtain h hs' where hs: "hs = h # hs'"
      and h: "\<forall>k. lacks hl k \<longrightarrow> h k = None"
      and rest: "list_all2 (\<lambda>hl h. \<forall>k. lacks hl k \<longrightarrow> h k = None) hls hs'"
      by (cases hs) auto
    have "\<exists>f s d.
        summary_block i h = lit ''ID: '' @ i @ nl @ lit ''From: '' @ f @ nl
            @ lit ''Subject: '' @ s @ nl @ lit ''Date: '' @ d @ nl @ lit ''---''
        \<and> (lacks hl (lit ''From'') \<longrightarrow> f = lit ''Unknown'')
        \<and> (lacks hl (lit ''Subject'') \<longrightarrow> s = lit ''No Subject'')
        \<and> (lacks hl (lit ''Date'') \<longrightarrow> d = lit ''Unknown'')"
      using h
      by (intro exI [of _ "dict_get h (lit ''From'') (lit ''Unknown'')"]
          exI [of _ "dict_get h (lit ''Subject'') (lit ''No Subject'')"]
          exI [of _ "dict_get h (lit ''Date'') (lit ''Unknown'')"])
        (simp add: summary_block_def dict_get_def)
    with Cons.IH [OF rest] show ?case by (simp add: hs)
  qed
  with r show "\<exists>blocks. fst (call_tool env (lit ''gmail_search'') arguments w)
                = Inr [TextContent (lit ''text'') (join nl blocks)]
              \<and> list_all2 (\<lambda>(i, hl) blk. \<exists>f s d.
                    blk = lit ''ID: '' @ i @ nl @ lit ''From: '' @ f @ nl
                          @ lit ''Subject: '' @ s @ nl @ lit ''Date: '' @ d @ nl @ lit ''---''
                    \<and> (lacks hl (lit ''From'') \<longrightarrow> f = lit ''Unknown'')
                    \<and> (lacks hl (lit ''Subject'') \<longrightarrow> s = lit ''No Subject'')
                    \<and> (lacks hl (lit ''Date'') \<longrightarrow> d = lit ''Unknown''))
                  (zip ids hls) blocks"
    by blast
next
  assume a: "arguments (lit ''message_id'') = Some mid
          \<and> messages_get env svc mid (lit ''full'') = Inr msg
          \<and> payload msg = Some p \<and> headers p = Some hl \<and> list_all complete_header hl
          \<and> extract_body p = Inr b"
  then obtain h where h: "build_headers Map.empty hl = Inr h" "\<forall>k. lacks hl k \<longrightarrow> h k = None"
    using build_headers_lacks [of hl Map.empty] by auto
  from a h(1) have "read_email env svc arguments w' =
      (Inr [TextContent (lit ''text'') (detail_text h b)],
       w'\<lparr>trace := trace w' @ [MessagesGet mid (lit ''full'')]\<rparr>)"
    using read_email_text [where arguments = arguments and w = "w'" and env = env and svc = svc
        and mid = mid and msg = msg and p = p and hl = hl and h = h and b = b]
    by simp
  then have r: "fst (call_tool env (lit ''gmail_read'') arguments w)
      = Inr [TextContent (lit ''text'') (detail_text h b)]"
    by (simp add: call_tool_with_service [OF assms] tool_names_distinct)
  show "\<exists>f t s d. fst (call_tool env (lit ''gmail_read'') arguments w)
                = Inr [TextContent (lit ''text'')
                    (lit ''From: '' @ f @ nl @ lit ''To: '' @ t @ nl
                     @ lit ''Subject: '' @ s @ nl @ lit ''Date: '' @ d @ nl @ nl @ b)]
              \<and> (lacks hl (lit ''From'') \<longrightarrow> f = lit ''Unknown'')
              \<and> (lacks hl (lit ''To'') \<longrightarrow> t = lit ''Unknown'')
              \<and> (lacks hl (lit ''Subject'') \<longrightarrow> s = lit ''No Subject'')
              \<and> (lacks hl (lit ''Date'') \<longrightarrow> d = lit ''Unknown'')"
    using h(2)
    by (intro exI [of _ "dict_get h (lit ''From'') (lit ''Unknown'')"]
        exI [of _ "dict_get h (lit ''To'') (lit ''Unknown'')"]
        exI [of _ "dict_get h (lit ''Subject'') (lit ''No Subject'')"]
        exI [of _ "dict_get h (lit ''Date'') (lit ''Unknown'')"])
      (simp add: r detail_text_def dict_get_def)
qed

theorem missing_headers_witness:
  "fst (call_tool (sample_env\<lparr>messages_get := \<lambda>svc i fmt. Inr bare_message\<rparr>)
          (lit ''gmail_search'') [lit ''query'' \<mapsto> VStr (lit ''is:unread'')] ready_world)
     = Inr [TextContent (lit ''text'')
         (lit ''ID: m1'' @ nl @ lit ''From: Unknown'' @ nl @ lit ''Subject: No Subject'' @ nl
          @ lit ''Date: Unknown'' @ nl @ lit ''---'')]
   \<and> fst (call_tool (sample_env\<lparr>messages_get := \<lambda>svc i fmt. Inr bare_message\<rparr>)
          (lit ''gmail_read'') [lit ''message_id'' \<mapsto> VStr (lit ''m5'')] ready_world)
     = Inr [TextContent (lit ''text'')
         (lit ''From: Unknown'' @ nl @ lit ''To: Unknown'' @ nl @ lit ''Subject: No Subject'' @ nl
          @ lit ''Date: Unknown'' @ nl @ nl)]"
proof -
  let ?env = "sample_env\<lparr>messages_get := \<lambda>svc i fmt. Inr bare_message\<rparr>"
  let ?svc = "Service fresh_credentials"
  note m = missing_headers [OF sample_service_get [of "\<lambda>svc i fmt. Inr bare_message"]]
  have l: "lacks [] k" for k
    by (simp add: lacks_def)
  have s: "messages_list ?env ?svc (VStr (lit ''is:unread''))
        (dict_get [lit ''query'' \<mapsto> VStr (lit ''is:unread'')] (lit ''max_results'') (VInt 10))
      = Inr (Some [Message (Some (lit ''m1'')) None])"
    by (simp add: sample_env_def)
  have g: "map (metadata_headers ?env ?svc) [lit ''m1''] = map Some [[]]"
    by (simp add: metadata_headers_def sample_env_def bare_message_def)
  have e: "extract_body (Part None (Some []) None None) = Inr []"
    by (simp add: extract_body_def)
  from m [THEN conjunct1, rule_format,
      of "[lit ''query'' \<mapsto> VStr (lit ''is:unread'')]" "VStr (lit ''is:unread'')"
        "[Message (Some (lit ''m1'')) None]" "[lit ''m1'']" "[[]]"] s g
  have 1: "fst (call_tool ?env (lit ''gmail_search'') [lit ''query'' \<mapsto> VStr (lit ''is:unread'')]
          ready_world)
     = Inr [TextContent (lit ''text'')
         (lit ''ID: m1'' @ nl @ lit ''From: Unknown'' @ nl @ lit ''Subject: No Subject'' @ nl
          @ lit ''Date: Unknown'' @ nl @ lit ''---'')]"
    by (auto simp: l list_all2_Cons1 lit_def)
  from m [THEN conjunct2, rule_format,
      of "[lit ''message_id'' \<mapsto> VStr (lit ''m5'')]" "VStr (lit ''m5'')" bare_message
        "Part None (Some []) None None" "[]" "[]"] e
  have 2: "fst (call_tool ?env (lit ''gmail_read'') [lit ''message_id'' \<mapsto> VStr (lit ''m5'')]
          ready_world)
     = Inr [TextContent (lit ''text'')
         (lit ''From: Unknown'' @ nl @ lit ''To: Unknown'' @ nl @ lit ''Subject: No Subject'' @ nl
          @ lit ''Date: Unknown'' @ nl @ nl)]"
    by (auto simp: l bare_message_def lit_def)
  from 1 2 show ?thesis by simp
qed

end
